theory Spec2Isabelle
  imports Complex_Main "HOL-Library.Sublist"
begin

section \<open>JavaScript values\<close>

text \<open>
  Values of TypeScript type \<open>any\<close>: the parsed webhook payload and the parsed
  review-service answer. Numbers are IEEE doubles in the running program; the code under
  study only tests them against zero, so the finite ones are taken as reals. An object is
  the list of its own properties, each name once.
\<close>

datatype jsval =
    JUndefined
  | JNull
  | JBool bool
  | JNum real
  | JStr string
  | JArr "jsval list"
  | JObj "(string \<times> jsval) list"

text \<open>\<open>!v\<close> is \<open>\<not> truthy v\<close>.\<close>

fun truthy :: "jsval \<Rightarrow> bool" where
  "truthy JUndefined = False"
| "truthy JNull = False"
| "truthy (JBool b) = b"
| "truthy (JNum n) = (n \<noteq> 0)"
| "truthy (JStr s) = (s \<noteq> [])"
| "truthy (JArr xs) = True"
| "truthy (JObj kvs) = True"

fun nullish :: "jsval \<Rightarrow> bool" where
  "nullish JUndefined = True"
| "nullish JNull = True"
| "nullish v = False"

text \<open>
  Reading a property \<open>v.k\<close> of a value that is neither \<open>undefined\<close> nor \<open>null\<close>.
  Only objects carry the property names read by the code under study (none of these
  names is a built-in property of a string, number, boolean or array, nor of
  \<open>Object.prototype\<close>); a name that is absent reads as \<open>undefined\<close>. On \<open>undefined\<close>
  and \<open>null\<close> the read raises a TypeError, which every caller below writes out; the
  optional chain \<open>v?.k\<close> reads \<open>undefined\<close> there instead, which is the value of
  \<open>member\<close> on them.
\<close>

fun member :: "jsval \<Rightarrow> string \<Rightarrow> jsval" where
  "member (JObj kvs) k = (case map_of kvs k of Some v \<Rightarrow> v | None \<Rightarrow> JUndefined)"
| "member v k = JUndefined"

text \<open>\<open>typeof v === 'object'\<close> and \<open>Array.isArray(v)\<close>.\<close>

fun typeof_object :: "jsval \<Rightarrow> bool" where
  "typeof_object JNull = True"
| "typeof_object (JArr xs) = True"
| "typeof_object (JObj kvs) = True"
| "typeof_object v = False"

fun isArray :: "jsval \<Rightarrow> bool" where
  "isArray (JArr xs) = True"
| "isArray v = False"

fun typeof_string :: "jsval \<Rightarrow> bool" where
  "typeof_string (JStr s) = True"
| "typeof_string v = False"

section \<open>Thrown values\<close>

text \<open>
  A message is a template literal: literal text and interpolated values, in order. A
  thrown value is an \<open>Error\<close> (\<open>HttpError\<close> is the host client's error, an \<open>Error\<close>
  with a \<open>status\<close>; \<open>APIError\<close> is the review service SDK's), a \<open>TypeError\<close> or
  \<open>RangeError\<close> of the runtime, or a value that is not an \<open>Error\<close> at all.
\<close>

datatype piece = Text string | Interp jsval

type_synonym message = "piece list"

datatype thrown =
    Error message
  | TypeError message
  | RangeError message
  | HttpError nat message
  | APIError message
  | NonError jsval

text \<open>\<open>error instanceof Error ? error.message : 'Unknown error'\<close>\<close>

fun error_message :: "thrown \<Rightarrow> message" where
  "error_message (Error m) = m"
| "error_message (TypeError m) = m"
| "error_message (RangeError m) = m"
| "error_message (HttpError st m) = m"
| "error_message (APIError m) = m"
| "error_message (NonError v) = [Text ''Unknown error'']"

text \<open>
  Conversion to a string, as a template literal \<open>`${v}`\<close> and \<open>RegExp.test\<close> apply
  it, either returns or raises a TypeError. It raises on an object with a property
  \<open>toString\<close> of its own: the property, a parsed value, is not callable, and neither
  \<open>valueOf\<close> of its own nor the inherited one gives a primitive. An object without
  it converts by \<open>Object.prototype.toString\<close>. An array converts by \<open>join\<close>, which
  converts each element other than \<open>undefined\<close> and \<open>null\<close>. Every other value
  converts.
\<close>

fun stringifiable :: "jsval \<Rightarrow> bool" where
  "stringifiable (JObj kvs) = (map_of kvs ''toString'' = None)"
| "stringifiable (JArr xs) = (\<forall>x \<in> set xs. nullish x \<or> stringifiable x)"
| "stringifiable v = True"

text \<open>
  Evaluating a template literal: the pieces in order, raising where an interpolated value
  does not convert. The text of a converted value is left as the value.
\<close>

fun interpolates :: "piece \<Rightarrow> bool" where
  "interpolates (Text s) = True"
| "interpolates (Interp v) = stringifiable v"

definition template :: "piece list \<Rightarrow> thrown + message" where
  "template ps =
     (if \<forall>p \<in> set ps. interpolates p then Inr ps
      else Inl (TypeError [Text ''Cannot convert object to primitive value'']))"

section \<open>handlers/webhook.ts\<close>

subsection \<open>validateSignature\<close>

text \<open>
  The two primitives of Node's \<open>crypto\<close> and \<open>Buffer\<close> that the verifier calls:
  \<open>createHmac('sha256', key).update(data).digest('hex')\<close>, which accepts every string
  key and every string, and \<open>Buffer.from(s)\<close>, the bytes of a string.
\<close>

record node_crypto =
  hmac_sha256_hex :: "string \<Rightarrow> string \<Rightarrow> string"
  Buffer_from :: "string \<Rightarrow> nat list"

text \<open>\<open>crypto.timingSafeEqual\<close> raises a RangeError on buffers of different length.\<close>

definition timingSafeEqual :: "'b list \<Rightarrow> 'b list \<Rightarrow> thrown + bool" where
  "timingSafeEqual a b =
     (if length a \<noteq> length b
      then Inl (RangeError [Text ''Input buffers must have the same byte length''])
      else Inr (a = b))"

text \<open>
  The signature header is \<open>None\<close> when it is \<open>undefined\<close> or \<open>null\<close>. The function
  has no exception handler: \<open>Inl\<close> is what it would propagate.
\<close>

definition validateSignature ::
  "node_crypto \<Rightarrow> string \<Rightarrow> string \<Rightarrow> string option \<Rightarrow> thrown + bool" where
  "validateSignature cr webhookSecret payload signature =
     (case signature of
        None \<Rightarrow> Inr False
      | Some sig \<Rightarrow>
          if sig = [] \<or> \<not> prefix ''sha256='' sig then Inr False
          else
            let expectedSignature = ''sha256='' @ hmac_sha256_hex cr webhookSecret payload;
                signatureBuffer = Buffer_from cr sig;
                expectedBuffer = Buffer_from cr expectedSignature
            in if length signatureBuffer \<noteq> length expectedBuffer then Inr False
               else timingSafeEqual signatureBuffer expectedBuffer)"

subsection \<open>parseEvent\<close>

text \<open>
  \<open>GitHubEvent\<close>. The interface declares \<open>name\<close>, \<open>owner\<close> as strings and
  \<open>installationId\<close> as a number; the values are copied unchecked out of the payload of
  type \<open>any\<close>, so they are kept as the values they are.
\<close>

record Repository =
  name :: jsval
  owner :: jsval

record GitHubEvent =
  event_type :: string
  payload :: jsval
  repository :: Repository
  installationId :: jsval

text \<open>
  \<open>determineEventType\<close>. \<open>includes\<close> compares with the three string literals, so in
  the template literal \<open>`pull_request.${action}`\<close> the action is one of these strings;
  the second case of the \<open>case\<close> below is not taken. The message of the error is a
  template literal over \<open>payload.action || 'unknown'\<close>, whose evaluation may raise.
\<close>

definition determineEventType :: "jsval \<Rightarrow> thrown + string" where
  "determineEventType p =
     (let action = member p ''action'' in
      if truthy (member p ''pull_request'') \<and> truthy action
         \<and> action \<in> set [JStr ''opened'', JStr ''synchronize'', JStr ''reopened'']
      then (case action of JStr a \<Rightarrow> Inr (''pull_request.'' @ a)
                         | _ \<Rightarrow> Inr ''pull_request.'')
      else if truthy (member p ''review'') \<and> action = JStr ''submitted''
      then Inr ''pull_request_review.submitted''
      else (case template [Text ''Unsupported event type: '',
                           Interp (if truthy action then action else JStr ''unknown'')] of
              Inl e \<Rightarrow> Inl e
            | Inr m \<Rightarrow> Inl (Error m)))"

definition parseEvent :: "jsval \<Rightarrow> thrown + GitHubEvent" where
  "parseEvent p =
     (if nullish p
      then Inl (TypeError [Text ''Cannot read properties of '', Interp p,
                           Text '' (reading 'installation')''])
      else if \<not> truthy (member (member p ''installation'') ''id'')
      then Inl (Error [Text ''Missing installation ID''])
      else if \<not> truthy (member (member p ''repository'') ''name'')
              \<or> \<not> truthy (member (member (member p ''repository'') ''owner'') ''login'')
      then Inl (Error [Text ''Missing repository information''])
      else (case determineEventType p of
              Inl e \<Rightarrow> Inl e
            | Inr eventType \<Rightarrow>
                Inr \<lparr> event_type = eventType,
                      payload = p,
                      repository =
                        \<lparr> name = member (member p ''repository'') ''name'',
                          owner = member (member (member p ''repository'') ''owner'') ''login'' \<rparr>,
                      installationId = member (member p ''installation'') ''id'' \<rparr>))"


section \<open>ai/context-builder.ts\<close>

text \<open>
  Strings are lists of code units and \<open>s.length\<close> is the length of the list. Lengths
  and token counts are JavaScript numbers holding integers; they are integers here, since
  the remaining budget of the packing loop can be negative.
\<close>

record FileContext =
  path :: string
  content :: string
  diff :: string
  language :: string

record PRContext =
  title :: string
  description :: string
  author :: string
  targetBranch :: string
  sourceBranch :: string

record RelatedFiles =
  imports_of :: "string list"
  exports_of :: "string list"
  tests_of :: "string list"

record FullContext =
  files :: "FileContext list"
  pr :: PRContext
  relatedFiles :: "(string \<times> RelatedFiles) list"
  totalTokens :: int

record OptimizedContext =
  opt_files :: "FileContext list"
  opt_pr :: PRContext
  truncated :: bool
  tokenCount :: int

definition MAX_TOKENS :: int where
  "MAX_TOKENS = 150000"

definition AVG_CHARS_PER_TOKEN :: int where
  "AVG_CHARS_PER_TOKEN = 4"

definition estimateFileChars :: "FileContext \<Rightarrow> int" where
  "estimateFileChars file =
     int (length (path file)) + int (length (content file)) + int (length (diff file)) + 50"

definition estimateFileTokens :: "FileContext \<Rightarrow> int" where
  "estimateFileTokens file =
     \<lceil>real_of_int (estimateFileChars file) / real_of_int AVG_CHARS_PER_TOKEN\<rceil>"

text \<open>
  \<open>estimateTokens\<close> takes the two fields of the context it reads, the files and the
  pull request; its loop adds the characters of each file to the running total.
\<close>

definition estimateTokens :: "FileContext list \<Rightarrow> PRContext \<Rightarrow> int" where
  "estimateTokens fs p =
     (let totalChars = int (length (title p)) + int (length (description p)) + 100;
          totalChars = fold (\<lambda>file total. total + estimateFileChars file) fs totalChars
      in \<lceil>real_of_int totalChars / real_of_int AVG_CHARS_PER_TOKEN\<rceil>)"

text \<open>
  \<open>s.substring(0, n)\<close> for an integer \<open>n\<close>: a negative end counts as zero, an end
  beyond the string as its length.
\<close>

definition substring0 :: "string \<Rightarrow> int \<Rightarrow> string" where
  "substring0 s n = take (nat n) s"

definition truncation_marker :: string where
  "truncation_marker = CHR 0x0A # ''... (truncated)''"

definition truncateFile :: "FileContext \<Rightarrow> int \<Rightarrow> FileContext" where
  "truncateFile file maxTokens =
     (let maxChars = maxTokens * AVG_CHARS_PER_TOKEN;
          pathAndMetadata = int (length (path file)) + 50;
          availableChars = maxChars - pathAndMetadata
      in if int (length (diff file)) \<le> availableChars
         then file\<lparr>content := []\<rparr>
         else file\<lparr>content := [],
                   diff := substring0 (diff file) availableChars @ truncation_marker\<rparr>)"

text \<open>
  The truncation loop of \<open>optimizeForTokenLimit\<close>: the files still to visit, the
  files kept so far and the running token total. The \<open>break\<close> ends the recursion.
\<close>

fun optimize_loop :: "FileContext list \<Rightarrow> FileContext list \<Rightarrow> int \<Rightarrow> FileContext list" where
  "optimize_loop [] optimizedFiles currentTokens = optimizedFiles"
| "optimize_loop (file # rest) optimizedFiles currentTokens =
     (let fileTokens = estimateFileTokens file in
      if currentTokens + fileTokens \<le> MAX_TOKENS
      then optimize_loop rest (optimizedFiles @ [file]) (currentTokens + fileTokens)
      else let remainingTokens = MAX_TOKENS - currentTokens;
               truncatedFile = truncateFile file remainingTokens
           in optimizedFiles @ [truncatedFile])"

definition optimizeForTokenLimit :: "FullContext \<Rightarrow> OptimizedContext" where
  "optimizeForTokenLimit context =
     (let estimatedTokens = estimateTokens (files context) (pr context) in
      if estimatedTokens \<le> MAX_TOKENS
      then \<lparr> opt_files = files context, opt_pr = pr context,
             truncated = False, tokenCount = estimatedTokens \<rparr>
      else \<lparr> opt_files = optimize_loop (files context) [] (estimateTokens [] (pr context)),
             opt_pr = pr context, truncated = True, tokenCount = MAX_TOKENS \<rparr>)"

section \<open>Effects\<close>

text \<open>
  An asynchronous function is a computation that issues calls to the outside (the
  logger, the host, the review service), one after the other, and then returns a value
  or raises. It is modelled by its outcome together with the calls it issued, in order.
  \<open>await\<close> is \<open>io_bind\<close>: the continuation runs only once the awaited call has
  returned, and not at all if it raised.
\<close>

record CodeFile =
  cf_path :: string
  cf_content :: string
  cf_diff :: string

text \<open>
  \<open>CodeContext\<close>. \<open>prDescription\<close> and \<open>repository\<close> come from the payload:
  the first is \<open>pullRequest.body || ''\<close>, the second the template literal
  \<open>`${repository.owner}/${repository.name}`\<close>.
\<close>

record CodeContext =
  cc_files :: "CodeFile list"
  prDescription :: jsval
  cc_repository :: message

text \<open>
  The prompt sent to the review service is a fixed text around the fields of the context
  (\<open>buildReviewPrompt\<close>); it is represented by the context it is built from.
\<close>

datatype prompt = ReviewPrompt CodeContext

record ReviewComment =
  rc_path :: jsval
  rc_line :: jsval
  rc_body :: string
  rc_side :: string

record ReviewRequest =
  rr_owner :: jsval
  rr_repo :: jsval
  rr_pull_number :: jsval
  rr_event :: string
  rr_comments :: "ReviewComment list"

datatype effect =
    Log string string string
  | LogError string string message
  | Call_getConfig
  | Call_getInstallationOctokit jsval
  | Call_listFiles jsval jsval jsval
  | Call_getContent jsval jsval string string
  | Call_createMessage prompt
  | Call_createReview ReviewRequest

type_synonym 'a io = "(thrown + 'a) \<times> effect list"

definition io_return :: "'a \<Rightarrow> 'a io" where
  "io_return a = (Inr a, [])"

definition io_throw :: "thrown \<Rightarrow> 'a io" where
  "io_throw e = (Inl e, [])"

definition io_emit :: "effect \<Rightarrow> unit io" where
  "io_emit ev = (Inr (), [ev])"

definition io_lift :: "thrown + 'a \<Rightarrow> 'a io" where
  "io_lift r = (r, [])"

definition io_bind :: "'a io \<Rightarrow> ('a \<Rightarrow> 'b io) \<Rightarrow> 'b io" where
  "io_bind m f =
     (case m of
        (Inl e, t) \<Rightarrow> (Inl e, t)
      | (Inr a, t) \<Rightarrow> (case f a of (r, t') \<Rightarrow> (r, t @ t')))"

text \<open>\<open>try { m } catch (error) { h error }\<close>\<close>

definition io_catch :: "'a io \<Rightarrow> (thrown \<Rightarrow> 'a io) \<Rightarrow> 'a io" where
  "io_catch m h =
     (case m of
        (Inl e, t) \<Rightarrow> (case h e of (r, t') \<Rightarrow> (r, t @ t'))
      | (Inr a, t) \<Rightarrow> (Inr a, t))"

section \<open>ai/engine.ts\<close>

datatype Severity = error | warning | info

text \<open>
  \<open>Issue\<close> (its field \<open>file\<close> is \<open>issue_file\<close> here). The interface declares \<open>file\<close>, \<open>message\<close>, \<open>category\<close> and
  \<open>suggestion\<close> as strings and \<open>line\<close> as a number; an analysis is the parsed
  answer of the review service seen through an unchecked cast, so these fields are kept
  as the values they are. An absent \<open>suggestion\<close> is \<open>undefined\<close>.
\<close>

record Issue =
  issue_file :: jsval
  line :: jsval
  severity :: Severity
  message :: jsval
  category :: jsval
  suggestion :: jsval

record ReviewAnalysis =
  issues :: "Issue list"
  summary :: jsval
  stats :: jsval

record Comment =
  comment_path :: jsval
  comment_line :: jsval
  comment_body :: string

record AIResponse =
  response_content :: string
  thinking :: string

text \<open>
  The engine: its floor, the collaborators handed to the constructor (of the client its
  \<open>createMessage\<close>, of the prompt manager its \<open>formatComment\<close>; the context builder
  is not used) and the runtime's \<open>JSON.parse\<close>.
\<close>

record AIReviewEngine =
  minimumSeverity :: Severity
  anthropicClient_createMessage :: "prompt \<Rightarrow> AIResponse io"
  promptManager_formatComment :: "Issue \<Rightarrow> string"
  JSON_parse :: "string \<Rightarrow> thrown + jsval"

text \<open>The constructor: the field initialiser sets the floor to \<open>info\<close>.\<close>

definition new_AIReviewEngine ::
  "(prompt \<Rightarrow> AIResponse io) \<Rightarrow> (Issue \<Rightarrow> string) \<Rightarrow> (string \<Rightarrow> thrown + jsval)
     \<Rightarrow> AIReviewEngine" where
  "new_AIReviewEngine createMessage formatComment parse =
     \<lparr> minimumSeverity = info,
       anthropicClient_createMessage = createMessage,
       promptManager_formatComment = formatComment,
       JSON_parse = parse \<rparr>"


fun severityOrder :: "Severity \<Rightarrow> nat" where
  "severityOrder error = 0"
| "severityOrder warning = 1"
| "severityOrder info = 2"

definition generateComments :: "AIReviewEngine \<Rightarrow> ReviewAnalysis \<Rightarrow> Comment list" where
  "generateComments engine analysis =
     (let minSeverityValue = severityOrder (minimumSeverity engine) in
      map (\<lambda>issue. \<lparr> comment_path = issue_file issue,
                      comment_line = line issue,
                      comment_body = promptManager_formatComment engine issue \<rparr>)
          (filter (\<lambda>issue. severityOrder (severity issue) \<le> minSeverityValue)
                  (issues analysis)))"

subsection \<open>validateAnalysis\<close>

text \<open>
  One round of the loop over \<open>analysis.issues\<close>. Reading \<open>issue.file\<close> of an
  issue that is \<open>null\<close> raises a TypeError.
\<close>

definition validate_issue :: "jsval \<Rightarrow> thrown + unit" where
  "validate_issue issue =
     (if nullish issue
      then Inl (TypeError [Text ''Cannot read properties of '', Interp issue,
                           Text '' (reading 'file')''])
      else if \<not> truthy (member issue ''file'') \<or> \<not> truthy (member issue ''line'')
              \<or> \<not> truthy (member issue ''severity'') \<or> \<not> truthy (member issue ''message'')
              \<or> \<not> truthy (member issue ''category'')
      then Inl (Error [Text ''Each issue must have file, line, severity, message, and category''])
      else if member issue ''severity'' \<notin> set [JStr ''error'', JStr ''warning'', JStr ''info'']
      then Inl (Error [Text ''Issue severity must be error, warning, or info''])
      else Inr ())"

fun validate_issues :: "jsval list \<Rightarrow> thrown + unit" where
  "validate_issues [] = Inr ()"
| "validate_issues (issue # rest) =
     (case validate_issue issue of
        Inl e \<Rightarrow> Inl e
      | Inr u \<Rightarrow> validate_issues rest)"

definition validateAnalysis :: "jsval \<Rightarrow> thrown + unit" where
  "validateAnalysis analysis =
     (if \<not> truthy analysis \<or> \<not> typeof_object analysis
      then Inl (Error [Text ''Analysis must be an object''])
      else if \<not> isArray (member analysis ''issues'')
      then Inl (Error [Text ''Analysis must contain an issues array''])
      else if \<not> truthy (member analysis ''summary'') \<or> \<not> typeof_string (member analysis ''summary'')
      then Inl (Error [Text ''Analysis must contain a summary string''])
      else if \<not> truthy (member analysis ''stats'') \<or> \<not> typeof_object (member analysis ''stats'')
      then Inl (Error [Text ''Analysis must contain stats object''])
      else (case member analysis ''issues'' of
              JArr is \<Rightarrow> validate_issues is
            | _ \<Rightarrow> Inr ()))"

text \<open>
  The cast \<open>as ReviewAnalysis\<close>: the parsed value read through the interface. Once
  \<open>validateAnalysis\<close> has accepted the value, every severity is one of the three
  strings, and the last case of \<open>asSeverity\<close> is not taken.
\<close>

definition asSeverity :: "jsval \<Rightarrow> Severity" where
  "asSeverity v = (if v = JStr ''error'' then error
                   else if v = JStr ''warning'' then warning else info)"

definition asIssue :: "jsval \<Rightarrow> Issue" where
  "asIssue v = \<lparr> issue_file = member v ''file'', line = member v ''line'',
                 severity = asSeverity (member v ''severity''),
                 message = member v ''message'', category = member v ''category'',
                 suggestion = member v ''suggestion'' \<rparr>"

definition asReviewAnalysis :: "jsval \<Rightarrow> ReviewAnalysis" where
  "asReviewAnalysis v =
     \<lparr> issues = (case member v ''issues'' of JArr is \<Rightarrow> map asIssue is | _ \<Rightarrow> []),
       summary = member v ''summary'', stats = member v ''stats'' \<rparr>"

subsection \<open>analyzeCode\<close>

text \<open>
  The call to the review service is outside the \<open>try\<close>: what it raises is propagated
  as it is. Parsing and validation are inside: what they raise is wrapped.
\<close>

definition analyzeCode :: "AIReviewEngine \<Rightarrow> CodeContext \<Rightarrow> ReviewAnalysis io" where
  "analyzeCode engine context =
     io_bind (anthropicClient_createMessage engine (ReviewPrompt context)) (\<lambda>response.
       io_catch
         (io_bind (io_lift (JSON_parse engine (response_content response))) (\<lambda>analysis.
            io_bind (io_lift (validateAnalysis analysis)) (\<lambda>u.
              io_return (asReviewAnalysis analysis))))
         (\<lambda>e. io_throw (Error (Text ''Invalid AI response format: '' # error_message e))))"

section \<open>github/client.ts\<close>

record File =
  filename :: string
  status :: string
  additions :: int
  deletions :: int
  changes :: int
  patch :: "string option"

text \<open>
  What \<open>repos.getContent\<close> answers: a file with its content (the base64 text already
  decoded), or anything else (a directory listing, a file without content).
\<close>

datatype ContentData = ContentFile string | ContentOther

text \<open>
  The authenticated host client. Each endpoint either returns or rejects. A review
  submission may depend on the submissions the host has already received in this
  invocation, which are its first argument.
\<close>

record Octokit =
  pulls_listFiles :: "jsval \<Rightarrow> jsval \<Rightarrow> jsval \<Rightarrow> thrown + File list"
  repos_getContent :: "jsval \<Rightarrow> jsval \<Rightarrow> string \<Rightarrow> string \<Rightarrow> thrown + ContentData"
  pulls_createReview :: "ReviewRequest list \<Rightarrow> ReviewRequest \<Rightarrow> thrown + unit"

record GitHubClient =
  app_getInstallationOctokit :: "jsval \<Rightarrow> thrown + Octokit"
  octokit :: "Octokit option"

definition new_GitHubClient :: "(jsval \<Rightarrow> thrown + Octokit) \<Rightarrow> GitHubClient" where
  "new_GitHubClient app = \<lparr> app_getInstallationOctokit = app, octokit = None \<rparr>"

definition authenticate :: "GitHubClient \<Rightarrow> jsval \<Rightarrow> GitHubClient io" where
  "authenticate client installation_id =
     io_bind (io_emit (Call_getInstallationOctokit installation_id)) (\<lambda>u.
       case app_getInstallationOctokit client installation_id of
         Inl e \<Rightarrow> io_throw (Error (Text ''Authentication failed: '' # error_message e))
       | Inr ok \<Rightarrow> io_return (client\<lparr>octokit := Some ok\<rparr>))"

text \<open>The test \<open>/\.(js|jsx|ts|tsx)$/\<close> on a file name.\<close>

definition is_js_ts :: "string \<Rightarrow> bool" where
  "is_js_ts f = (suffix ''.js'' f \<or> suffix ''.jsx'' f \<or> suffix ''.ts'' f \<or> suffix ''.tsx'' f)"

definition getFiles :: "GitHubClient \<Rightarrow> jsval \<Rightarrow> jsval \<Rightarrow> jsval \<Rightarrow> File list io" where
  "getFiles client owner_v repo pull_number =
     (case octokit client of
        None \<Rightarrow> io_throw (Error [Text ''GitHub client not authenticated''])
      | Some ok \<Rightarrow>
          io_bind (io_emit (Call_listFiles owner_v repo pull_number)) (\<lambda>u.
          io_bind (io_lift (pulls_listFiles ok owner_v repo pull_number)) (\<lambda>data.
            io_return (filter (\<lambda>f. is_js_ts (filename f)) data))))"

text \<open>
  \<open>error.status === 404\<close> in the handler of \<open>getFile\<close>: reading \<open>status\<close> of a
  thrown \<open>undefined\<close> or \<open>null\<close> raises in turn.
\<close>

definition status_is_404 :: "thrown \<Rightarrow> thrown + bool" where
  "status_is_404 e =
     (case e of
        HttpError st m \<Rightarrow> Inr (st = 404)
      | NonError v \<Rightarrow>
          if nullish v then Inl (TypeError [Text ''Cannot read properties of '', Interp v,
                                            Text '' (reading 'status')''])
          else Inr (member v ''status'' = JNum 404)
      | _ \<Rightarrow> Inr False)"

definition getFile ::
  "GitHubClient \<Rightarrow> jsval \<Rightarrow> jsval \<Rightarrow> string \<Rightarrow> string \<Rightarrow> string option io" where
  "getFile client owner_v repo file_path ref =
     (case octokit client of
        None \<Rightarrow> io_throw (Error [Text ''GitHub client not authenticated''])
      | Some ok \<Rightarrow>
          io_catch
            (io_bind (io_emit (Call_getContent owner_v repo file_path ref)) (\<lambda>u.
             io_bind (io_lift (repos_getContent ok owner_v repo file_path ref)) (\<lambda>data.
               case data of
                 ContentFile text \<Rightarrow> io_return (Some text)
               | ContentOther \<Rightarrow> io_return None)))
            (\<lambda>e. io_bind (io_lift (status_is_404 e)) (\<lambda>not_found.
                    if not_found then io_return None else io_throw e)))"

subsection \<open>createReview\<close>

definition BATCH_SIZE :: nat where
  "BATCH_SIZE = 100"

text \<open>\<open>xs.slice(i, j)\<close> for \<open>0 \<le> i \<le> j\<close>\<close>

definition slice :: "nat \<Rightarrow> nat \<Rightarrow> 'a list \<Rightarrow> 'a list" where
  "slice i j xs = take (j - i) (drop i xs)"

text \<open>
  The first loop of \<open>createReview\<close>, from index \<open>i\<close> on:
  \<open>for (let i = 0; i < comments.length; i += BATCH_SIZE) batches.push(...)\<close>.
\<close>

function batches_from :: "nat \<Rightarrow> 'a list \<Rightarrow> 'a list list" where
  "batches_from i comments =
     (if i < length comments
      then slice i (i + BATCH_SIZE) comments # batches_from (i + BATCH_SIZE) comments
      else [])"
  by pat_completeness auto
termination
  by (relation "measure (\<lambda>(i, comments). length comments - i)") (auto simp: BATCH_SIZE_def)

definition review_request :: "jsval \<Rightarrow> jsval \<Rightarrow> jsval \<Rightarrow> Comment list \<Rightarrow> ReviewRequest" where
  "review_request owner_v repo pull_number batch =
     \<lparr> rr_owner = owner_v, rr_repo = repo, rr_pull_number = pull_number,
       rr_event = ''COMMENT'',
       rr_comments = map (\<lambda>c. \<lparr> rc_path = comment_path c, rc_line = comment_line c,
                                  rc_body = comment_body c, rc_side = ''RIGHT'' \<rparr>) batch \<rparr>"

text \<open>
  The second loop: one awaited call per batch. \<open>sent\<close> are the submissions already
  made; a rejected call ends the loop with what it raised.
\<close>

fun post_batches ::
  "Octokit \<Rightarrow> jsval \<Rightarrow> jsval \<Rightarrow> jsval \<Rightarrow> Comment list list \<Rightarrow> ReviewRequest list \<Rightarrow> unit io" where
  "post_batches ok owner_v repo pull_number [] sent = (Inr (), [])"
| "post_batches ok owner_v repo pull_number (batch # rest) sent =
     (let req = review_request owner_v repo pull_number batch in
      case pulls_createReview ok sent req of
        Inl e \<Rightarrow> (Inl e, [Call_createReview req])
      | Inr u \<Rightarrow>
          (case post_batches ok owner_v repo pull_number rest (sent @ [req]) of
             (r, t) \<Rightarrow> (r, Call_createReview req # t)))"

definition createReview ::
  "GitHubClient \<Rightarrow> jsval \<Rightarrow> jsval \<Rightarrow> jsval \<Rightarrow> Comment list \<Rightarrow> unit io" where
  "createReview client owner_v repo pull_number comments =
     (case octokit client of
        None \<Rightarrow> io_throw (Error [Text ''GitHub client not authenticated''])
      | Some ok \<Rightarrow>
          if length comments = 0 then io_return ()
          else post_batches ok owner_v repo pull_number (batches_from 0 comments) [])"

section \<open>config\<close>

text \<open>The fields of \<open>Config\<close> that the handlers read.\<close>

record Config =
  githubAppId :: int
  githubPrivateKey :: string
  githubWebhookSecret :: string
  anthropicApiKey :: string
  anthropicModel :: string
  maxRetries :: int
  aiTimeoutMs :: int

text \<open>\<open>defaultConfig\<close>: the limits the pull-request handler reads.\<close>

definition maxFileSize :: int where
  "maxFileSize = 1024 * 1024"

definition ignoredPaths :: "string list" where
  "ignoredPaths = [''node_modules/**'', ''dist/**'', ''build/**'', ''coverage/**'',
                   ''**/*.min.js'', ''**/*.bundle.js'', ''vendor/**'']"

definition maxFilesPerReview :: nat where
  "maxFilesPerReview = 50"

definition maxCommentsPerPR :: nat where
  "maxCommentsPerPR = 20"

section \<open>The outside world\<close>

text \<open>
  \<open>CustomInstructions\<close>, the parsed \<open>.reviewthor.md\<close>.
\<close>

record CustomInstructions =
  focusAreas :: "string list"
  customRules :: "string list"
  ignorePatterns :: "string list"
  rawContent :: string
  instructions_severity :: "Severity option"

text \<open>
  Everything one invocation depends on besides the request: what loading the
  configuration gives, the host application (which hands out an authenticated client
  for an installation, or rejects), the review service's SDK (the text of its answer,
  or what it raises), \<open>JSON.parse\<close>, the prompt manager's \<open>formatComment\<close>, the
  instruction parser, the regular-expression branch of the glob matcher (pattern, then
  the path, converted to a string by the test), the crypto primitives and the generated
  correlation identifier. Each may answer anything.
\<close>

record World =
  getConfig :: "thrown + Config"
  app :: "Config \<Rightarrow> jsval \<Rightarrow> thrown + Octokit"
  messages_create :: "Config \<Rightarrow> prompt \<Rightarrow> thrown + string"
  world_JSON_parse :: "string \<Rightarrow> thrown + jsval"
  formatComment :: "Issue \<Rightarrow> string"
  parseInstructionFile :: "string \<Rightarrow> CustomInstructions"
  glob_regex_test :: "string \<Rightarrow> jsval \<Rightarrow> bool"
  crypto :: node_crypto
  generateCorrelationId :: string

section \<open>ai/anthropic-client.ts\<close>

text \<open>
  \<open>createMessage\<close>: an \<open>APIError\<close> of the SDK is wrapped, anything else is
  rethrown as it is. The text of the answer is its text blocks joined.
\<close>

definition createMessage :: "World \<Rightarrow> Config \<Rightarrow> prompt \<Rightarrow> AIResponse io" where
  "createMessage w config p =
     io_bind (io_emit (Call_createMessage p)) (\<lambda>u.
       case messages_create w config p of
         Inl (APIError m) \<Rightarrow> io_throw (Error (Text ''Anthropic API error: '' # m))
       | Inl e \<Rightarrow> io_throw e
       | Inr text \<Rightarrow> io_return \<lparr> response_content = text, thinking = [] \<rparr>)"

section \<open>ai/instruction-processor.ts\<close>

definition fetchCustomInstructions ::
  "World \<Rightarrow> GitHubClient \<Rightarrow> jsval \<Rightarrow> jsval \<Rightarrow> CustomInstructions option io" where
  "fetchCustomInstructions w client owner_v repo =
     io_bind (getFile client owner_v repo ''.reviewthor.md'' ''HEAD'') (\<lambda>file_content.
       case file_content of
         None \<Rightarrow> io_return None
       | Some text \<Rightarrow> if text = [] then io_return None
                      else io_return (Some (parseInstructionFile w text)))"

section \<open>handlers/events/pull-request.ts\<close>

text \<open>
  \<open>matchesPattern\<close>. The path of a comment is the \<open>file\<close> of a finding, which may
  be any value: \<open>path.startsWith\<close> exists on strings only (and reading it from
  \<open>undefined\<close> or \<open>null\<close> raises), and the test of the regular expression
  converts the path to a string first.
\<close>

definition matchesPattern :: "World \<Rightarrow> jsval \<Rightarrow> string \<Rightarrow> thrown + bool" where
  "matchesPattern w file_path pattern =
     (if suffix ''/**'' pattern
      then (let base = take (length pattern - 3) pattern in
            case file_path of
              JStr p \<Rightarrow> Inr (prefix (base @ ''/'') p \<or> p = base)
            | JUndefined \<Rightarrow> Inl (TypeError [Text ''Cannot read properties of '',
                                               Interp file_path,
                                               Text '' (reading 'startsWith')''])
            | JNull \<Rightarrow> Inl (TypeError [Text ''Cannot read properties of '',
                                          Interp file_path,
                                          Text '' (reading 'startsWith')''])
            | _ \<Rightarrow> Inl (TypeError [Text ''path.startsWith is not a function'']))
      else if stringifiable file_path then Inr (glob_regex_test w pattern file_path)
      else Inl (TypeError [Text ''Cannot convert object to primitive value'']))"

text \<open>\<open>patterns.some(pattern => matchesPattern(path, pattern))\<close>\<close>

fun some_pattern :: "World \<Rightarrow> jsval \<Rightarrow> string list \<Rightarrow> thrown + bool" where
  "some_pattern w file_path [] = Inr False"
| "some_pattern w file_path (pattern # rest) =
     (case matchesPattern w file_path pattern of
        Inl e \<Rightarrow> Inl e
      | Inr matched \<Rightarrow> if matched then Inr True else some_pattern w file_path rest)"

text \<open>The callback of \<open>files.filter\<close>: whether the file is kept, and what it logs.\<close>

definition keep_file :: "World \<Rightarrow> string \<Rightarrow> File \<Rightarrow> bool io" where
  "keep_file w correlationId f =
     (if changes f > maxFileSize
      then io_bind (io_emit (Log ''info'' ''Skipping large file'' correlationId)) (\<lambda>u.
             io_return False)
      else io_bind (io_lift (some_pattern w (JStr (filename f)) ignoredPaths)) (\<lambda>shouldIgnore.
             if shouldIgnore
             then io_bind (io_emit (Log ''debug'' ''Ignoring file based on pattern'' correlationId))
                    (\<lambda>u. io_return False)
             else io_return True))"

fun filter_files :: "World \<Rightarrow> string \<Rightarrow> File list \<Rightarrow> File list io" where
  "filter_files w correlationId [] = (Inr [], [])"
| "filter_files w correlationId (f # rest) =
     (case keep_file w correlationId f of
        (Inl e, t) \<Rightarrow> (Inl e, t)
      | (Inr keep, t) \<Rightarrow>
          (case filter_files w correlationId rest of
             (Inl e, t') \<Rightarrow> (Inl e, t @ t')
           | (Inr kept, t') \<Rightarrow> (Inr (if keep then f # kept else kept), t @ t')))"

text \<open>The filter of the comments by the repository's ignore patterns.\<close>

fun filter_comments :: "World \<Rightarrow> string list \<Rightarrow> Comment list \<Rightarrow> thrown + Comment list" where
  "filter_comments w patterns [] = Inr []"
| "filter_comments w patterns (c # rest) =
     (case some_pattern w (comment_path c) patterns of
        Inl e \<Rightarrow> Inl e
      | Inr shouldIgnore \<Rightarrow>
          (case filter_comments w patterns rest of
             Inl e \<Rightarrow> Inl e
           | Inr kept \<Rightarrow> Inr (if shouldIgnore then kept else c # kept)))"

text \<open>
  The body of the \<open>try\<close> block of \<open>handlePullRequest\<close>; \<open>pullRequest\<close> is
  \<open>payload.pull_request\<close>, read before the block.
\<close>

definition processPullRequest :: "World \<Rightarrow> GitHubEvent \<Rightarrow> string \<Rightarrow> jsval \<Rightarrow> unit io" where
  "processPullRequest w event correlationId pullRequest =
     (if truthy (member pullRequest ''draft'')
      then io_emit (Log ''info'' ''Skipping draft PR'' correlationId)
      else
        io_bind (io_emit Call_getConfig) (\<lambda>u.
        io_bind (io_lift (getConfig w)) (\<lambda>config.
        io_bind (authenticate (new_GitHubClient (app w config)) (installationId event))
          (\<lambda>githubClient.
        io_bind (getFiles githubClient (owner (repository event)) (name (repository event))
                   (member pullRequest ''number'')) (\<lambda>fs.
        io_bind (filter_files w correlationId fs) (\<lambda>filesToReview.
        if length filesToReview = 0
        then io_emit (Log ''info'' ''No files to review'' correlationId)
        else
          let limitedFiles = take maxFilesPerReview filesToReview;
              aiEngine = new_AIReviewEngine (createMessage w config) (formatComment w)
                           (world_JSON_parse w)
          in
          io_bind (if length limitedFiles < length filesToReview
                   then io_emit (Log ''warning'' ''File limit exceeded, reviewing subset''
                                   correlationId)
                   else io_return ()) (\<lambda>u.
          io_bind (fetchCustomInstructions w githubClient (owner (repository event))
                     (name (repository event))) (\<lambda>customInstructions.
          io_bind (case customInstructions of
                     Some ci \<Rightarrow> io_emit (Log ''info'' ''Found custom instructions'' correlationId)
                   | None \<Rightarrow> io_return ()) (\<lambda>u.
          io_bind (io_lift (template [Interp (owner (repository event)), Text ''/'',
                                      Interp (name (repository event))])) (\<lambda>repository_text.
          let reviewContext =
                \<lparr> cc_files = map (\<lambda>f. \<lparr> cf_path = filename f, cf_content = [],
                                          cf_diff = (case patch f of Some d \<Rightarrow> d | None \<Rightarrow> []) \<rparr>)
                                 limitedFiles,
                  prDescription = (if truthy (member pullRequest ''body'')
                                   then member pullRequest ''body'' else JStr []),
                  cc_repository = repository_text \<rparr>
          in
          io_bind (io_emit (Log ''info'' ''Starting AI analysis'' correlationId)) (\<lambda>u.
          io_bind (analyzeCode aiEngine reviewContext) (\<lambda>analysis.
          io_bind (io_emit (Log ''info'' ''AI analysis complete'' correlationId)) (\<lambda>u.
          io_bind (case customInstructions of
                     Some ci \<Rightarrow> io_lift (filter_comments w (ignorePatterns ci)
                                            (generateComments aiEngine analysis))
                   | None \<Rightarrow> io_return (generateComments aiEngine analysis))
            (\<lambda>filteredComments.
          let finalComments = take maxCommentsPerPR filteredComments in
          io_bind (if length finalComments > 0
                   then io_bind (io_emit (Log ''info'' ''Posting review comments'' correlationId))
                          (\<lambda>u. createReview githubClient (owner (repository event))
                                  (name (repository event)) (member pullRequest ''number'')
                                  finalComments)
                   else io_emit (Log ''info'' ''No comments to post'' correlationId)) (\<lambda>u.
          io_emit (Log ''info'' ''Pull request processing complete'' correlationId)
        )))))))))))))))"

text \<open>
  \<open>handlePullRequest\<close>. Before the \<open>try\<close> block it reads \<open>payload.pull_request\<close>
  and builds the context of its first log entry: the template literal
  \<open>`${repository.owner}/${repository.name}`\<close>, then \<open>pullRequest.number\<close>. What these
  raise (on a payload or a \<open>pull_request\<close> that is \<open>undefined\<close> or \<open>null\<close>, on an
  owner or name that does not convert to a string) is raised outside the block, before
  anything is logged. The handler of the block logs and returns.
\<close>

definition handlePullRequest :: "World \<Rightarrow> GitHubEvent \<Rightarrow> string \<Rightarrow> unit io" where
  "handlePullRequest w event correlationId =
     (if nullish (payload event)
      then io_throw (TypeError [Text ''Cannot read properties of '', Interp (payload event),
                                Text '' (reading 'pull_request')''])
      else
        let pullRequest = member (payload event) ''pull_request'' in
        case template [Interp (owner (repository event)), Text ''/'',
                       Interp (name (repository event))] of
          Inl e \<Rightarrow> io_throw e
        | Inr repository_text \<Rightarrow>
            if nullish pullRequest
            then io_throw (TypeError [Text ''Cannot read properties of '', Interp pullRequest,
                                      Text '' (reading 'number')''])
            else
              io_bind (io_emit (Log ''info'' ''Processing pull request'' correlationId)) (\<lambda>u.
                io_catch (processPullRequest w event correlationId pullRequest)
                  (\<lambda>e. io_emit (LogError ''Error processing pull request'' correlationId
                                   (error_message e)))))"

section \<open>handlers/webhook.ts: routing\<close>

record WebhookHandler =
  webhookSecret :: string
  pullRequestHandler :: "(GitHubEvent \<Rightarrow> unit io) option"

definition new_WebhookHandler :: "string \<Rightarrow> WebhookHandler" where
  "new_WebhookHandler secret = \<lparr> webhookSecret = secret, pullRequestHandler = None \<rparr>"

definition setPullRequestHandler ::
  "WebhookHandler \<Rightarrow> (GitHubEvent \<Rightarrow> unit io) \<Rightarrow> WebhookHandler" where
  "setPullRequestHandler h handler = h\<lparr>pullRequestHandler := Some handler\<rparr>"

definition routeEvent :: "WebhookHandler \<Rightarrow> GitHubEvent \<Rightarrow> unit io" where
  "routeEvent h event =
     (if event_type event \<in> set [''pull_request.opened'', ''pull_request.synchronize'',
                                   ''pull_request.reopened'']
      then (case pullRequestHandler h of
              Some handler \<Rightarrow> handler event
            | None \<Rightarrow> io_return ())
      else io_return ())"

section \<open>index.ts\<close>

text \<open>
  The request: the parsed body (\<open>undefined\<close> when absent), the raw body as text
  (\<open>None\<close> when absent) and the three headers read (\<open>None\<close> when absent). The
  response: the status and the text sent.
\<close>

record Request =
  body :: jsval
  rawBody :: "string option"
  x_github_delivery :: "string option"
  x_github_event :: "string option"
  x_hub_signature_256 :: "string option"

record Response =
  response_status :: nat
  response_sent :: string

definition respond :: "nat \<Rightarrow> string \<Rightarrow> Response io" where
  "respond st text = io_return \<lparr> response_status = st, response_sent = text \<rparr>"

text \<open>\<open>!h\<close> for a header: absent or empty.\<close>

definition header_missing :: "string option \<Rightarrow> bool" where
  "header_missing h = (h = None \<or> h = Some [])"

text \<open>
  \<open>req.rawBody.toString('utf8')\<close>, which the responder evaluates only after it has
  found the raw body present.
\<close>

definition toString_utf8 :: "string option \<Rightarrow> string" where
  "toString_utf8 raw = (case raw of Some text \<Rightarrow> text | None \<Rightarrow> [])"

text \<open>
  \<open>reviewthor\<close>. Everything after the first log entry is inside its \<open>try\<close> block,
  the context of the last log entry included: the template literal
  \<open>`${event.repository.owner}/${event.repository.name}`\<close> is evaluated after the event
  has been routed and before 200 is sent.
\<close>

definition reviewthor :: "World \<Rightarrow> Request \<Rightarrow> Response io" where
  "reviewthor w req =
     (let correlationId = (case x_github_delivery req of
                             Some d \<Rightarrow> if d = [] then generateCorrelationId w else d
                           | None \<Rightarrow> generateCorrelationId w)
      in
      io_bind (io_emit (Log ''info'' ''Webhook received'' correlationId)) (\<lambda>u.
      io_catch
        (if \<not> truthy (body req) \<or> rawBody req = None
         then io_bind (io_emit (Log ''warning'' ''Missing request body'' correlationId)) (\<lambda>u.
                respond 400 ''Missing request body'')
         else if header_missing (x_hub_signature_256 req)
         then io_bind (io_emit (Log ''warning'' ''Missing signature header'' correlationId)) (\<lambda>u.
                respond 401 ''Invalid signature'')
         else if header_missing (x_github_event req)
         then io_bind (io_emit (Log ''warning'' ''Missing event type header'' correlationId)) (\<lambda>u.
                respond 400 ''Missing event type'')
         else if x_github_event req \<noteq> Some ''pull_request''
                 \<and> x_github_event req \<noteq> Some ''pull_request_review''
         then io_bind (io_emit (Log ''info'' ''Ignoring non-pull request event'' correlationId))
                (\<lambda>u. respond 200 ''Event ignored'')
         else
           io_bind (io_emit Call_getConfig) (\<lambda>u.
           io_bind (io_lift (getConfig w)) (\<lambda>config.
           let webhookHandler = new_WebhookHandler (githubWebhookSecret config) in
           io_bind (io_lift (validateSignature (crypto w) (webhookSecret webhookHandler)
                               (toString_utf8 (rawBody req)) (x_hub_signature_256 req)))
             (\<lambda>valid.
           if \<not> valid
           then io_bind (io_emit (Log ''warning'' ''Invalid webhook signature'' correlationId))
                  (\<lambda>u. respond 401 ''Invalid signature'')
           else
             io_bind (io_lift (parseEvent (body req))) (\<lambda>event.
             io_bind (routeEvent
                        (setPullRequestHandler webhookHandler
                           (\<lambda>evt. handlePullRequest w evt correlationId))
                        event) (\<lambda>u.
             io_bind (io_lift (template [Interp (owner (repository event)), Text ''/'',
                                         Interp (name (repository event))]))
               (\<lambda>repository_text.
             io_bind (io_emit (Log ''info'' ''Webhook processed successfully'' correlationId))
               (\<lambda>u. respond 200 ''OK''))))))))
        (\<lambda>e. io_bind (io_emit (LogError ''Error processing webhook'' correlationId
                                 (error_message e))) (\<lambda>u.
                respond 500 ''Internal server error''))))"

section \<open>Reading a trace\<close>

text \<open>
  The name of the outside operation an effect calls; a log entry calls none.
\<close>

fun call_name :: "effect \<Rightarrow> string option" where
  "call_name (Log level text correlationId) = None"
| "call_name (LogError text correlationId m) = None"
| "call_name Call_getConfig = Some ''getConfig''"
| "call_name (Call_getInstallationOctokit i) = Some ''getInstallationOctokit''"
| "call_name (Call_listFiles o_v r n) = Some ''listFiles''"
| "call_name (Call_getContent o_v r p ref) = Some ''getContent''"
| "call_name (Call_createMessage p) = Some ''createMessage''"
| "call_name (Call_createReview r) = Some ''createReview''"

definition calls :: "effect list \<Rightarrow> string list" where
  "calls t = List.map_filter call_name t"

section \<open>Concrete inputs\<close>

text \<open>Payloads.\<close>

definition opened_payload :: jsval where
  "opened_payload =
     JObj [(''action'', JStr ''opened''),
           (''pull_request'', JObj [(''number'', JNum 1), (''draft'', JBool False)]),
           (''repository'', JObj [(''name'', JStr ''repo''),
                                  (''owner'', JObj [(''login'', JStr ''octo'')])]),
           (''installation'', JObj [(''id'', JNum 456)])]"


definition opened_event :: GitHubEvent where
  "opened_event =
     \<lparr> event_type = ''pull_request.opened'', payload = opened_payload,
       repository = \<lparr> name = JStr ''repo'', owner = JStr ''octo'' \<rparr>,
       installationId = JNum 456 \<rparr>"


text \<open>
  A world in which the configuration loads and every call to the host and to the review
  service is rejected.
\<close>

definition sample_config :: Config where
  "sample_config =
     \<lparr> githubAppId = 123456, githubPrivateKey = ''key'', githubWebhookSecret = ''test-secret'',
       anthropicApiKey = ''api-key'', anthropicModel = ''claude-3-opus-20240229'',
       maxRetries = 3, aiTimeoutMs = 30000 \<rparr>"

definition sample_crypto :: node_crypto where
  "sample_crypto =
     \<lparr> hmac_sha256_hex = (\<lambda>key text. replicate 64 (CHR ''0'')),
       Buffer_from = map of_char \<rparr>"

definition offline_world :: World where
  "offline_world =
     \<lparr> getConfig = Inr sample_config,
       app = (\<lambda>config i. Inl (Error [Text ''Auth failed''])),
       messages_create = (\<lambda>config p. Inl (APIError [Text ''overloaded''])),
       world_JSON_parse = (\<lambda>text. Inl (Error [Text ''Unexpected token''])),
       formatComment = (\<lambda>issue. ''comment''),
       parseInstructionFile =
         (\<lambda>text. \<lparr> focusAreas = [], customRules = [], ignorePatterns = [],
                     rawContent = text, instructions_severity = None \<rparr>),
       glob_regex_test = (\<lambda>pattern p. False),
       crypto = sample_crypto,
       generateCorrelationId = ''rev-0'' \<rparr>"

text \<open>
  Payloads with a value that does not convert to a string: as the repository name of an
  opened (and of a draft) pull request, and as the action of an event that is not
  supported.
\<close>

definition unprintable :: jsval where
  "unprintable = JObj [(''toString'', JNum 1)]"

definition unprintable_name_payload :: jsval where
  "unprintable_name_payload =
     JObj [(''action'', JStr ''opened''),
           (''pull_request'', JObj [(''number'', JNum 1), (''draft'', JBool False)]),
           (''repository'', JObj [(''name'', unprintable),
                                  (''owner'', JObj [(''login'', JStr ''octo'')])]),
           (''installation'', JObj [(''id'', JNum 456)])]"

definition unprintable_name_event :: GitHubEvent where
  "unprintable_name_event =
     \<lparr> event_type = ''pull_request.opened'', payload = unprintable_name_payload,
       repository = \<lparr> name = unprintable, owner = JStr ''octo'' \<rparr>,
       installationId = JNum 456 \<rparr>"


definition unprintable_action_payload :: jsval where
  "unprintable_action_payload =
     JObj [(''action'', unprintable),
           (''repository'', JObj [(''name'', JStr ''repo''),
                                  (''owner'', JObj [(''login'', JStr ''octo'')])]),
           (''installation'', JObj [(''id'', JNum 456)])]"

text \<open>
  A request for that opened pull request whose signature verifies in the world above.
\<close>

definition verified_unprintable_name_request :: Request where
  "verified_unprintable_name_request =
     \<lparr> body = unprintable_name_payload,
       rawBody = Some ''{}'',
       x_github_delivery = Some ''d-5'',
       x_github_event = Some ''pull_request'',
       x_hub_signature_256 = Some (''sha256='' @ replicate 64 (CHR ''0'')) \<rparr>"

text \<open>Requests whose signature header is present and does not verify.\<close>

definition push_request_bad_signature :: Request where
  "push_request_bad_signature =
     \<lparr> body = JObj [(''ref'', JStr ''refs/heads/main'')],
       rawBody = Some ''{}'',
       x_github_delivery = Some ''d-1'',
       x_github_event = Some ''push'',
       x_hub_signature_256 = Some ''sha256=bad'' \<rparr>"

definition pull_request_bad_signature :: Request where
  "pull_request_bad_signature =
     \<lparr> body = opened_payload,
       rawBody = Some ''{}'',
       x_github_delivery = Some ''d-2'',
       x_github_event = Some ''pull_request'',
       x_hub_signature_256 = Some ''sha256=bad'' \<rparr>"

text \<open>Contexts over the token budget: one without files, one with two files.\<close>

definition sample_pr :: PRContext where
  "sample_pr = \<lparr> title = ''Test'', description = ''Test'', author = ''user'',
                 targetBranch = ''main'', sourceBranch = ''feature'' \<rparr>"

definition oversized_description_context :: FullContext where
  "oversized_description_context =
     \<lparr> files = [],
       pr = sample_pr\<lparr>description := replicate 600000 (CHR ''a'')\<rparr>,
       relatedFiles = [], totalTokens = 0 \<rparr>"

definition two_file_context :: FullContext where
  "two_file_context =
     \<lparr> files = [\<lparr> path = ''file1.js'', content = replicate 100000 (CHR ''x''),
                   diff = ''diff1'', language = ''javascript'' \<rparr>,
                 \<lparr> path = ''file2.js'', content = replicate 500000 (CHR ''x''),
                   diff = ''diff2'', language = ''javascript'' \<rparr>],
       pr = sample_pr, relatedFiles = [], totalTokens = 150000 \<rparr>"






text \<open>
  An authenticated client whose host rejects the second review submission it receives.
\<close>

definition second_rejecting_octokit :: Octokit where
  "second_rejecting_octokit =
     \<lparr> pulls_listFiles = (\<lambda>o_v r n. Inr []),
       repos_getContent = (\<lambda>o_v r p ref. Inr ContentOther),
       pulls_createReview =
         (\<lambda>sent req. if length sent = 1 then Inl (HttpError 422 [Text ''Unprocessable''])
                       else Inr ()) \<rparr>"

definition authenticated_client :: GitHubClient where
  "authenticated_client =
     \<lparr> app_getInstallationOctokit = (\<lambda>i. Inr second_rejecting_octokit),
       octokit = Some second_rejecting_octokit \<rparr>"

definition sample_comment :: Comment where
  "sample_comment = \<lparr> comment_path = JStr ''file.js'', comment_line = JNum 1,
                      comment_body = ''Comment'' \<rparr>"

section \<open>Facts about effects\<close>

lemma io_bind_Inr: "io_bind (Inr a, t) f = (fst (f a), t @ snd (f a))"
  by (simp add: io_bind_def split: prod.splits)

lemma io_bind_Inl: "io_bind (Inl e, t) f = (Inl e, t)"
  by (simp add: io_bind_def)

lemma io_catch_Inl: "io_catch (Inl e, t) h = (fst (h e), t @ snd (h e))"
  by (simp add: io_catch_def split: prod.splits)

lemma io_catch_Inr: "io_catch (Inr a, t) h = (Inr a, t)"
  by (simp add: io_catch_def)

lemmas io_simps = io_bind_Inr io_bind_Inl io_catch_Inl io_catch_Inr
  io_emit_def io_return_def io_throw_def io_lift_def

lemma fst_io_bind:
  "fst (io_bind m f) = (case fst m of Inl e \<Rightarrow> Inl e | Inr a \<Rightarrow> fst (f a))"
  by (simp add: io_bind_def split: prod.splits sum.splits)

lemma snd_io_bind:
  "snd (io_bind m f) = (case fst m of Inl e \<Rightarrow> snd m | Inr a \<Rightarrow> snd m @ snd (f a))"
  by (simp add: io_bind_def split: prod.splits sum.splits)

lemma fst_io_catch:
  "fst (io_catch m h) = (case fst m of Inl e \<Rightarrow> fst (h e) | Inr a \<Rightarrow> Inr a)"
  by (simp add: io_catch_def split: prod.splits sum.splits)

lemma snd_io_catch:
  "snd (io_catch m h) = (case fst m of Inl e \<Rightarrow> snd m @ snd (h e) | Inr a \<Rightarrow> snd m)"
  by (simp add: io_catch_def split: prod.splits sum.splits)

section \<open>Signature verification\<close>

text \<open>
  C7. \<open>validateSignature\<close> fails closed. For every secret, payload and signature
  header it returns a boolean and raises nothing; the result is \<open>false\<close> for a header
  that is absent or empty, for a header that does not start with \<open>sha256=\<close>, and
  wherever the comparison would raise, that is for a header whose bytes differ in number
  from those of the expected signature (\<open>timingSafeEqual\<close> is not reached then). The
  function has no exception handler and needs none: the digest and the byte conversion
  accept every string, and the length test stands before the only primitive that
  raises. Its result is a function of the secret and its two arguments alone.
\<close>

theorem validateSignature_fails_closed:
  "(\<exists>b. validateSignature cr secret raw signature = Inr b)
   \<and> validateSignature cr secret raw None = Inr False
   \<and> validateSignature cr secret raw (Some []) = Inr False
   \<and> (\<not> prefix ''sha256='' sig \<longrightarrow> validateSignature cr secret raw (Some sig) = Inr False)
   \<and> (length (Buffer_from cr sig)
         \<noteq> length (Buffer_from cr (''sha256='' @ hmac_sha256_hex cr secret raw))
       \<longrightarrow> validateSignature cr secret raw (Some sig) = Inr False
           \<and> (\<exists>e. timingSafeEqual (Buffer_from cr sig)
                     (Buffer_from cr (''sha256='' @ hmac_sha256_hex cr secret raw)) = Inl e))"
  by (auto simp: validateSignature_def timingSafeEqual_def Let_def split: option.splits)

theorem validateSignature_fails_closed_witness:
  "\<not> prefix ''sha256='' ''sha1=abc''
   \<and> validateSignature sample_crypto ''test-secret'' ''{}'' (Some ''sha1=abc'') = Inr False
   \<and> length (Buffer_from sample_crypto ''sha256=short'')
        \<noteq> length (Buffer_from sample_crypto
                     (''sha256='' @ hmac_sha256_hex sample_crypto ''test-secret'' ''{}''))
   \<and> validateSignature sample_crypto ''test-secret'' ''{}'' (Some ''sha256=short'') = Inr False
   \<and> validateSignature sample_crypto ''test-secret'' ''{}''
         (Some (''sha256='' @ replicate 64 (CHR ''0''))) = Inr True"
  using validateSignature_fails_closed
          [where cr = sample_crypto and secret = "''test-secret''" and raw = "''{}''"
             and sig = "''sha1=abc''"]
        validateSignature_fails_closed
          [where cr = sample_crypto and secret = "''test-secret''" and raw = "''{}''"
             and sig = "''sha256=short''"]
  by (simp add: sample_crypto_def validateSignature_def timingSafeEqual_def Let_def)

section \<open>Event classification\<close>

lemma determineEventType_kinds:
  "determineEventType p = Inr t \<Longrightarrow>
     t \<in> {''pull_request.opened'', ''pull_request.synchronize'',
             ''pull_request.reopened'', ''pull_request_review.submitted''}"
  by (auto simp: determineEventType_def Let_def split: if_splits sum.splits)

lemma repository_template:
  "template [Interp o_v, Text ''/'', Interp n_v]
     = (if stringifiable o_v \<and> stringifiable n_v
        then Inr [Interp o_v, Text ''/'', Interp n_v]
        else Inl (TypeError [Text ''Cannot convert object to primitive value'']))"
  by (simp add: template_def)

lemma falsy_stringifiable: "\<not> truthy v \<Longrightarrow> stringifiable v"
  by (cases v) simp_all

lemma determineEventType_error:
  "determineEventType p = Inl e \<Longrightarrow>
     (stringifiable (member p ''action'')
        \<and> e = Error [Text ''Unsupported event type: '',
                        Interp (if truthy (member p ''action'') then member p ''action''
                                else JStr ''unknown'')])
     \<or> (\<not> stringifiable (member p ''action'')
        \<and> e = TypeError [Text ''Cannot convert object to primitive value''])"
  using falsy_stringifiable[of "member p ''action''"]
  by (auto simp: determineEventType_def Let_def template_def split: if_splits sum.splits)

text \<open>
  C6. \<open>parseEvent\<close> has exactly one outcome on every payload. On a payload other than
  \<open>undefined\<close> and \<open>null\<close> (the responder answers 400 to a request without a body
  before it classifies) whose action converts to a string, the outcome is an event whose
  type is one of the four kinds, the error \<open>Missing installation ID\<close>, the error
  \<open>Missing repository information\<close>, or the error \<open>Unsupported event type: \<close>
  followed by the action, or by \<open>unknown\<close> when the action is absent or falsy. On the
  remaining payloads a TypeError can take the place of the last: on \<open>undefined\<close> and
  \<open>null\<close> the first read raises it, and where the event is not supported and the
  action does not convert to a string, the message of the error cannot be built.
\<close>

theorem parseEvent_total:
  "(nullish p \<longrightarrow>
      parseEvent p = Inl (TypeError [Text ''Cannot read properties of '', Interp p,
                                     Text '' (reading 'installation')'']))
   \<and> (\<not> nullish p \<longrightarrow>
        (\<exists>ev. parseEvent p = Inr ev
            \<and> event_type ev \<in> {''pull_request.opened'', ''pull_request.synchronize'',
                                ''pull_request.reopened'', ''pull_request_review.submitted''})
       \<or> parseEvent p = Inl (Error [Text ''Missing installation ID''])
       \<or> parseEvent p = Inl (Error [Text ''Missing repository information''])
       \<or> (stringifiable (member p ''action'')
           \<and> parseEvent p = Inl (Error [Text ''Unsupported event type: '',
                  Interp (if truthy (member p ''action'') then member p ''action''
                          else JStr ''unknown'')]))
       \<or> (\<not> stringifiable (member p ''action'')
           \<and> parseEvent p
               = Inl (TypeError [Text ''Cannot convert object to primitive value''])))"
proof (intro conjI impI)
  assume "nullish p"
  then show "parseEvent p = Inl (TypeError [Text ''Cannot read properties of '', Interp p,
                                            Text '' (reading 'installation')''])"
    by (simp add: parseEvent_def)
next
  assume n: "\<not> nullish p"
  show "(\<exists>ev. parseEvent p = Inr ev
            \<and> event_type ev \<in> {''pull_request.opened'', ''pull_request.synchronize'',
                                ''pull_request.reopened'', ''pull_request_review.submitted''})
       \<or> parseEvent p = Inl (Error [Text ''Missing installation ID''])
       \<or> parseEvent p = Inl (Error [Text ''Missing repository information''])
       \<or> (stringifiable (member p ''action'')
           \<and> parseEvent p = Inl (Error [Text ''Unsupported event type: '',
                  Interp (if truthy (member p ''action'') then member p ''action''
                          else JStr ''unknown'')]))
       \<or> (\<not> stringifiable (member p ''action'')
           \<and> parseEvent p
               = Inl (TypeError [Text ''Cannot convert object to primitive value'']))"
  proof (cases "determineEventType p")
    case (Inl e)
    then show ?thesis
      using n determineEventType_error[OF Inl] by (auto simp: parseEvent_def)
  next
    case (Inr t)
    then show ?thesis
      using n determineEventType_kinds[OF Inr] by (simp add: parseEvent_def)
  qed
qed

theorem parseEvent_total_witness:
  "\<not> nullish opened_payload
   \<and> (\<exists>ev. parseEvent opened_payload = Inr ev \<and> event_type ev = ''pull_request.opened'')"
  using parseEvent_total [of opened_payload]
  by (simp add: opened_payload_def parseEvent_def determineEventType_def)

text \<open>
  On \<open>null\<close> the first read of the payload raises a TypeError; so does the building of
  the message for an unsupported event whose action is an object with a property
  \<open>toString\<close>. Neither is one of the two named errors.
\<close>

theorem parseEvent_null_counterexample:
  "parseEvent JNull = Inl (TypeError [Text ''Cannot read properties of '', Interp JNull,
                                      Text '' (reading 'installation')''])
   \<and> parseEvent unprintable_action_payload
       = Inl (TypeError [Text ''Cannot convert object to primitive value''])"
  by (simp add: parseEvent_def determineEventType_def template_def
        unprintable_action_payload_def unprintable_def)




section \<open>Packing under the token budget\<close>

lemma fold_estimateFileChars:
  "fold (\<lambda>file total. total + estimateFileChars file) fs a
     = a + sum_list (map estimateFileChars fs)"
  by (induction fs arbitrary: a) simp_all

lemma ceiling_sum_le:
  "\<lceil>(real_of_int (a + sum_list (map estimateFileChars fs))) / real_of_int AVG_CHARS_PER_TOKEN\<rceil>
     \<le> \<lceil>real_of_int a / real_of_int AVG_CHARS_PER_TOKEN\<rceil>
        + sum_list (map estimateFileTokens fs)"
proof (induction fs arbitrary: a)
  case Nil
  then show ?case by simp
next
  case (Cons f fs)
  have "\<lceil>real_of_int (a + estimateFileChars f) / real_of_int AVG_CHARS_PER_TOKEN\<rceil>
          \<le> \<lceil>real_of_int a / real_of_int AVG_CHARS_PER_TOKEN\<rceil> + estimateFileTokens f"
    unfolding estimateFileTokens_def
    using ceiling_add_le[of "real_of_int a / real_of_int AVG_CHARS_PER_TOKEN"
                            "real_of_int (estimateFileChars f) / real_of_int AVG_CHARS_PER_TOKEN"]
    by (simp add: add_divide_distrib)
  with Cons.IH[of "a + estimateFileChars f"] show ?case
    by (simp add: add.assoc)
qed

lemma estimateTokens_le_sum:
  "estimateTokens fs p \<le> estimateTokens [] p + sum_list (map estimateFileTokens fs)"
  using ceiling_sum_le[of "int (length (title p)) + int (length (description p)) + 100" fs]
  by (simp add: estimateTokens_def fold_estimateFileChars)

lemma optimize_loop_acc:
  "optimize_loop fs acc cur = acc @ optimize_loop fs [] cur"
proof (induction fs arbitrary: acc cur)
  case Nil
  show ?case by simp
next
  case (Cons f fs)
  show ?case
    using Cons.IH[of "acc @ [f]"] Cons.IH[of "[f]"]
    by (simp add: Let_def)
qed

lemma optimize_loop_overflow:
  "MAX_TOKENS < cur + sum_list (map estimateFileTokens fs) \<Longrightarrow> fs \<noteq> [] \<Longrightarrow>
     \<exists>k<length fs. optimize_loop fs [] cur
        = take k fs @ [truncateFile (fs ! k)
                         (MAX_TOKENS - (cur + sum_list (map estimateFileTokens (take k fs))))]"
proof (induction fs arbitrary: cur)
  case Nil
  then show ?case by simp
next
  case (Cons f fs)
  show ?case
  proof (cases "cur + estimateFileTokens f \<le> MAX_TOKENS")
    case True
    from Cons.prems have "MAX_TOKENS < (cur + estimateFileTokens f) + sum_list (map estimateFileTokens fs)"
      by simp
    moreover from this True have "fs \<noteq> []" by auto
    ultimately obtain k where k: "k < length fs"
      and eq: "optimize_loop fs [] (cur + estimateFileTokens f)
        = take k fs @ [truncateFile (fs ! k)
            (MAX_TOKENS - (cur + estimateFileTokens f + sum_list (map estimateFileTokens (take k fs))))]"
      using Cons.IH[of "cur + estimateFileTokens f"] by blast
    have "optimize_loop (f # fs) [] cur = f # optimize_loop fs [] (cur + estimateFileTokens f)"
      using True optimize_loop_acc[of fs "[f]"] by (simp add: Let_def)
    with eq k show ?thesis
      by (intro exI[of _ "Suc k"]) (simp add: add.assoc)
  next
    case False
    then show ?thesis
      by (intro exI[of _ 0]) (simp add: Let_def)
  qed
qed

lemma truncateFile_shape:
  "path (truncateFile f m) = path f \<and> language (truncateFile f m) = language f
   \<and> content (truncateFile f m) = []
   \<and> (diff (truncateFile f m) = diff f
        \<or> (\<exists>n. diff (truncateFile f m) = take n (diff f) @ truncation_marker))"
  by (auto simp: truncateFile_def Let_def substring0_def)

text \<open>
  C2. If the estimate of the whole context is at most the budget, \<open>optimizeForTokenLimit\<close>
  returns the files unchanged, \<open>truncated = false\<close> and the estimate as the token count.
  Otherwise it returns \<open>truncated = true\<close> and the budget as the token count; with no
  input file the file list returned is empty; with at least one input file it is the
  first \<open>k\<close> input files, unchanged and in order, followed by the next input file with
  its path and language kept, its content emptied and its diff either kept or cut to a
  prefix with the truncation marker appended.
\<close>

theorem optimizeForTokenLimit_packs:
  "(estimateTokens (files c) (pr c) \<le> MAX_TOKENS \<longrightarrow>
      optimizeForTokenLimit c
        = \<lparr> opt_files = files c, opt_pr = pr c, truncated = False,
              tokenCount = estimateTokens (files c) (pr c) \<rparr>)
   \<and> (MAX_TOKENS < estimateTokens (files c) (pr c) \<longrightarrow>
        truncated (optimizeForTokenLimit c)
        \<and> tokenCount (optimizeForTokenLimit c) = MAX_TOKENS
        \<and> opt_pr (optimizeForTokenLimit c) = pr c
        \<and> (files c = [] \<longrightarrow> opt_files (optimizeForTokenLimit c) = [])
        \<and> (files c \<noteq> [] \<longrightarrow>
             (\<exists>k<length (files c). \<exists>t.
                 opt_files (optimizeForTokenLimit c) = take k (files c) @ [t]
                 \<and> path t = path (files c ! k) \<and> language t = language (files c ! k)
                 \<and> content t = []
                 \<and> (diff t = diff (files c ! k)
                      \<or> (\<exists>n. diff t = take n (diff (files c ! k)) @ truncation_marker)))))"
proof (intro conjI impI)
  assume "estimateTokens (files c) (pr c) \<le> MAX_TOKENS"
  then show "optimizeForTokenLimit c
        = \<lparr> opt_files = files c, opt_pr = pr c, truncated = False,
              tokenCount = estimateTokens (files c) (pr c) \<rparr>"
    by (simp add: optimizeForTokenLimit_def)
next
  assume over: "MAX_TOKENS < estimateTokens (files c) (pr c)"
  then show "truncated (optimizeForTokenLimit c)"
    and "tokenCount (optimizeForTokenLimit c) = MAX_TOKENS"
    and "opt_pr (optimizeForTokenLimit c) = pr c"
    by (simp_all add: optimizeForTokenLimit_def Let_def)
  have out: "opt_files (optimizeForTokenLimit c)
               = optimize_loop (files c) [] (estimateTokens [] (pr c))"
    using over by (simp add: optimizeForTokenLimit_def Let_def)
  { assume "files c = []"
    then show "opt_files (optimizeForTokenLimit c) = []" using out by simp }
  { assume ne: "files c \<noteq> []"
    have "MAX_TOKENS < estimateTokens [] (pr c) + sum_list (map estimateFileTokens (files c))"
      using over estimateTokens_le_sum[of "files c" "pr c"] by linarith
    from optimize_loop_overflow[OF this ne] obtain k where k: "k < length (files c)"
      and eq: "optimize_loop (files c) [] (estimateTokens [] (pr c))
        = take k (files c) @ [truncateFile (files c ! k)
            (MAX_TOKENS - (estimateTokens [] (pr c)
                             + sum_list (map estimateFileTokens (take k (files c)))))]"
      by blast
    show "\<exists>k<length (files c). \<exists>t.
                 opt_files (optimizeForTokenLimit c) = take k (files c) @ [t]
                 \<and> path t = path (files c ! k) \<and> language t = language (files c ! k)
                 \<and> content t = []
                 \<and> (diff t = diff (files c ! k)
                      \<or> (\<exists>n. diff t = take n (diff (files c ! k)) @ truncation_marker))"
      using k eq out truncateFile_shape by metis }
qed

theorem optimizeForTokenLimit_packs_witness:
  "MAX_TOKENS < estimateTokens (files two_file_context) (pr two_file_context)
   \<and> files two_file_context \<noteq> []
   \<and> truncated (optimizeForTokenLimit two_file_context)
   \<and> tokenCount (optimizeForTokenLimit two_file_context) = MAX_TOKENS"
  using optimizeForTokenLimit_packs [of two_file_context]
  by (simp add: two_file_context_def sample_pr_def estimateTokens_def estimateFileChars_def
        MAX_TOKENS_def AVG_CHARS_PER_TOKEN_def)

text \<open>
  A context without files whose description alone is over the budget: the result is
  truncated and its file list is empty.
\<close>

theorem optimizeForTokenLimit_no_files_counterexample:
  "MAX_TOKENS < estimateTokens (files oversized_description_context)
                   (pr oversized_description_context)
   \<and> truncated (optimizeForTokenLimit oversized_description_context)
   \<and> opt_files (optimizeForTokenLimit oversized_description_context) = []"
  by (simp add: oversized_description_context_def sample_pr_def optimizeForTokenLimit_def
        estimateTokens_def MAX_TOKENS_def AVG_CHARS_PER_TOKEN_def Let_def)

section \<open>Severity floor\<close>









section \<open>Validation of the review service's answer\<close>






section \<open>Posting review comments in batches\<close>

declare batches_from.simps [simp del]

lemma concat_batches_from: "concat (batches_from i xs) = drop i xs"
proof (induction i xs rule: batches_from.induct)
  case (1 i xs)
  show ?case
  proof (cases "i < length xs")
    case True
    have "take BATCH_SIZE (drop i xs) @ drop (i + BATCH_SIZE) xs = drop i xs"
      by (metis add.commute append_take_drop_id drop_drop)
    with 1[OF True] True show ?thesis
      by (subst batches_from.simps) (simp add: slice_def)
  next
    case False
    then show ?thesis by (subst batches_from.simps) simp
  qed
qed

lemma div_hundred_step:
  fixes k :: nat
  shows "(k + 199) div 100 = Suc ((k + 99) div 100)"
proof -
  have e: "k + 199 = (k + 99) + 100" by simp
  have "((k + 99) + 100) div 100 = (k + 99) div 100 + 1"
    by (rule div_add_self2) simp
  then show ?thesis unfolding e by simp
qed

lemma batch_count_step:
  fixes m :: nat
  assumes "0 < m"
  shows "Suc ((m - 100 + 99) div 100) = (m + 99) div 100"
proof (cases "100 \<le> m")
  case True
  define k where "k = m - 100"
  with True have m: "m = k + 100" by simp
  show ?thesis unfolding m using div_hundred_step[of k] by simp
next
  case False
  with assms have a: "m - 100 = 0" and b: "100 \<le> m + 99" and c: "m + 99 < 200" by simp_all
  have "(m + 99) div 100 = 1"
    by (rule div_nat_eqI) (use b c in simp_all)
  then show ?thesis using a by simp
qed

lemma length_batches_from:
  "length (batches_from i xs) = (length xs - i + 99) div 100"
proof (induction i xs rule: batches_from.induct)
  case (1 i xs)
  show ?case
  proof (cases "i < length xs")
    case True
    have "length (batches_from i xs) = Suc (length (batches_from (i + BATCH_SIZE) xs))"
      using True by (subst batches_from.simps) simp
    also have "\<dots> = Suc ((length xs - (i + 100) + 99) div 100)"
      using 1[OF True] by (simp add: BATCH_SIZE_def)
    also have "length xs - (i + 100) = (length xs - i) - 100" by simp
    also have "Suc ((length xs - i - 100 + 99) div 100) = (length xs - i + 99) div 100"
      by (rule batch_count_step) (use True in simp)
    finally show ?thesis .
  next
    case False
    then show ?thesis by (subst batches_from.simps) simp
  qed
qed

lemma batch_sizes:
  "b \<in> set (batches_from i xs) \<Longrightarrow> 0 < length b \<and> length b \<le> 100"
proof (induction i xs rule: batches_from.induct)
  case (1 i xs)
  show ?case
  proof (cases "i < length xs")
    case True
    from "1.prems" True have "b = slice i (i + BATCH_SIZE) xs \<or> b \<in> set (batches_from (i + BATCH_SIZE) xs)"
      by (subst (asm) batches_from.simps) simp
    then show ?thesis
    proof
      assume "b = slice i (i + BATCH_SIZE) xs"
      then show ?thesis using True by (simp add: slice_def BATCH_SIZE_def)
    next
      assume "b \<in> set (batches_from (i + BATCH_SIZE) xs)"
      then show ?thesis using 1(1)[OF True] by simp
    qed
  next
    case False
    with "1.prems" show ?thesis by (subst (asm) batches_from.simps) simp
  qed
qed

lemma post_batches_outcome:
  "(fst (post_batches ok ow rp n bs sent) = Inr ()
      \<and> snd (post_batches ok ow rp n bs sent) = map (\<lambda>b. Call_createReview (review_request ow rp n b)) bs
      \<and> (\<forall>k<length bs. pulls_createReview ok (sent @ map (review_request ow rp n) (take k bs))
                             (review_request ow rp n (bs ! k)) = Inr ()))
   \<or> (\<exists>k<length bs. \<exists>e.
        fst (post_batches ok ow rp n bs sent) = Inl e
        \<and> snd (post_batches ok ow rp n bs sent)
            = map (\<lambda>b. Call_createReview (review_request ow rp n b)) (take (Suc k) bs)
        \<and> pulls_createReview ok (sent @ map (review_request ow rp n) (take k bs))
                             (review_request ow rp n (bs ! k)) = Inl e
        \<and> (\<forall>j<k. pulls_createReview ok (sent @ map (review_request ow rp n) (take j bs))
                             (review_request ow rp n (bs ! j)) = Inr ()))"
proof (induction bs arbitrary: sent)
  case Nil
  show ?case by simp
next
  case (Cons b bs)
  let ?req = "review_request ow rp n b"
  show ?case
  proof (cases "pulls_createReview ok sent ?req")
    case (Inl e)
    then have "fst (post_batches ok ow rp n (b # bs) sent) = Inl e"
      and "snd (post_batches ok ow rp n (b # bs) sent) = [Call_createReview ?req]"
      by (simp_all add: Let_def)
    with Inl show ?thesis
      by (intro disjI2 exI[of _ 0] exI[of _ e]) simp
  next
    case (Inr u)
    then have f: "fst (post_batches ok ow rp n (b # bs) sent)
                   = fst (post_batches ok ow rp n bs (sent @ [?req]))"
      and s: "snd (post_batches ok ow rp n (b # bs) sent)
                   = Call_createReview ?req # snd (post_batches ok ow rp n bs (sent @ [?req]))"
      by (simp_all add: Let_def split: prod.splits)
    from Cons.IH[of "sent @ [?req]"] show ?thesis
    proof
      assume A: "fst (post_batches ok ow rp n bs (sent @ [?req])) = Inr ()
          \<and> snd (post_batches ok ow rp n bs (sent @ [?req]))
                = map (\<lambda>b. Call_createReview (review_request ow rp n b)) bs
          \<and> (\<forall>k<length bs. pulls_createReview ok ((sent @ [?req]) @ map (review_request ow rp n) (take k bs))
                             (review_request ow rp n (bs ! k)) = Inr ())"
      have "\<forall>k<length (b # bs). pulls_createReview ok (sent @ map (review_request ow rp n) (take k (b # bs)))
                             (review_request ow rp n ((b # bs) ! k)) = Inr ()"
      proof (intro allI impI)
        fix k assume "k < length (b # bs)"
        then show "pulls_createReview ok (sent @ map (review_request ow rp n) (take k (b # bs)))
                             (review_request ow rp n ((b # bs) ! k)) = Inr ()"
          using A Inr by (cases k) auto
      qed
      with A f s show ?thesis by simp
    next
      assume "\<exists>k<length bs. \<exists>e.
        fst (post_batches ok ow rp n bs (sent @ [?req])) = Inl e
        \<and> snd (post_batches ok ow rp n bs (sent @ [?req]))
            = map (\<lambda>b. Call_createReview (review_request ow rp n b)) (take (Suc k) bs)
        \<and> pulls_createReview ok ((sent @ [?req]) @ map (review_request ow rp n) (take k bs))
                             (review_request ow rp n (bs ! k)) = Inl e
        \<and> (\<forall>j<k. pulls_createReview ok ((sent @ [?req]) @ map (review_request ow rp n) (take j bs))
                             (review_request ow rp n (bs ! j)) = Inr ())"
      then obtain k e where k: "k < length bs"
        and B: "fst (post_batches ok ow rp n bs (sent @ [?req])) = Inl e"
          "snd (post_batches ok ow rp n bs (sent @ [?req]))
            = map (\<lambda>b. Call_createReview (review_request ow rp n b)) (take (Suc k) bs)"
          "pulls_createReview ok ((sent @ [?req]) @ map (review_request ow rp n) (take k bs))
                             (review_request ow rp n (bs ! k)) = Inl e"
        and C: "\<forall>j<k. pulls_createReview ok ((sent @ [?req]) @ map (review_request ow rp n) (take j bs))
                             (review_request ow rp n (bs ! j)) = Inr ()"
        by blast
      have "\<forall>j<Suc k. pulls_createReview ok (sent @ map (review_request ow rp n) (take j (b # bs)))
                             (review_request ow rp n ((b # bs) ! j)) = Inr ()"
      proof (intro allI impI)
        fix j assume "j < Suc k"
        then show "pulls_createReview ok (sent @ map (review_request ow rp n) (take j (b # bs)))
                             (review_request ow rp n ((b # bs) ! j)) = Inr ()"
          using C Inr by (cases j) auto
      qed
      with k B f s show ?thesis
        by (intro disjI2 exI[of _ "Suc k"] exI[of _ e]) simp
    qed
  qed
qed

lemma ceiling_hundred: "\<lceil>real n / 100\<rceil> = int ((n + 99) div 100)"
proof -
  define q where "q = (n + 99) div 100"
  have lo: "q * 100 \<le> n + 99"
    unfolding q_def by (rule div_times_less_eq_dividend)
  have hi: "n + 99 < 100 + q * 100"
    unfolding q_def by (rule dividend_less_div_times) simp
  from lo have "real (q * 100) \<le> real (n + 99)" by (rule of_nat_mono)
  then have a: "real q * 100 \<le> real n + 99" by simp
  from hi have "n \<le> q * 100" by simp
  then have "real n \<le> real (q * 100)" by (rule of_nat_mono)
  then have b: "real n \<le> real q * 100" by simp
  have "real q - 1 < real n / 100" using a by simp
  moreover have "real n / 100 \<le> real q" using b by simp
  ultimately have "\<lceil>real n / 100\<rceil> = int q"
    by (intro ceiling_unique) simp_all
  then show ?thesis unfolding q_def .
qed

text \<open>
  Before authentication \<open>createReview\<close> raises and makes no call.
\<close>

lemma createReview_unauthenticated:
  "octokit client = None \<Longrightarrow>
     createReview client ow rp n comments
       = (Inl (Error [Text ''GitHub client not authenticated'']), [])"
  by (simp add: createReview_def io_throw_def)

lemma batches_of_250:
  "batches_from 0 (replicate 250 c) = [replicate 100 c, replicate 100 c, replicate 50 c]"
proof -
  have 3: "batches_from 300 (replicate 250 c) = []"
    by (subst batches_from.simps) simp
  have 2: "batches_from 200 (replicate 250 c) = [replicate 50 c]"
    using 3 by (subst batches_from.simps) (simp add: BATCH_SIZE_def slice_def)
  have 1: "batches_from 100 (replicate 250 c) = [replicate 100 c, replicate 50 c]"
    using 2 by (subst batches_from.simps) (simp add: BATCH_SIZE_def slice_def)
  show ?thesis
    using 1 by (subst batches_from.simps) (simp add: BATCH_SIZE_def slice_def)
qed

text \<open>
  C4. On an authenticated client, \<open>createReview\<close> with no comment makes no call. The
  comments are cut into \<open>\<lceil>n / 100\<rceil>\<close> batches, each of at least one and at most 100
  comments, whose concatenation is the comment list. The submission for a batch names
  the owner, the repository and the pull request, has the event \<open>COMMENT\<close> and carries
  the comments of the batch, each with its path, line and body and the side \<open>RIGHT\<close>,
  so that the submissions of all batches carry the comment list, in order. The calls
  made are one submission per batch, in order, each issued after the submissions before
  it have returned: either every submission is accepted and all batches are sent, or the
  first rejected submission is the last call made, its error is what \<open>createReview\<close>
  raises, and the submissions before it stay made.
\<close>

theorem createReview_batches:
  fixes ow rp n :: jsval and comments :: "Comment list"
    and posted :: "Comment list \<Rightarrow> ReviewComment list"
    and request :: "Comment list \<Rightarrow> ReviewRequest"
  defines "posted \<equiv> map (\<lambda>c. \<lparr> rc_path = comment_path c, rc_line = comment_line c,
                                  rc_body = comment_body c, rc_side = ''RIGHT'' \<rparr>)"
      and "request \<equiv> \<lambda>batch. \<lparr> rr_owner = ow, rr_repo = rp, rr_pull_number = n,
                                rr_event = ''COMMENT'', rr_comments = posted batch \<rparr>"
  assumes "octokit client = Some ok"
  shows "(comments = [] \<longrightarrow> createReview client ow rp n comments = (Inr (), []))
   \<and> int (length (batches_from 0 comments)) = \<lceil>real (length comments) / 100\<rceil>
   \<and> concat (batches_from 0 comments) = comments
   \<and> (\<forall>b \<in> set (batches_from 0 comments). 0 < length b \<and> length b \<le> 100)
   \<and> concat (map (\<lambda>b. rr_comments (request b)) (batches_from 0 comments)) = posted comments
   \<and> ((fst (createReview client ow rp n comments) = Inr ()
        \<and> snd (createReview client ow rp n comments)
            = map (\<lambda>b. Call_createReview (request b)) (batches_from 0 comments)
        \<and> (\<forall>k<length (batches_from 0 comments).
              pulls_createReview ok (map request (take k (batches_from 0 comments)))
                 (request (batches_from 0 comments ! k)) = Inr ()))
      \<or> (\<exists>k<length (batches_from 0 comments). \<exists>e.
            fst (createReview client ow rp n comments) = Inl e
            \<and> snd (createReview client ow rp n comments)
                = map (\<lambda>b. Call_createReview (request b))
                      (take (Suc k) (batches_from 0 comments))
            \<and> pulls_createReview ok (map request (take k (batches_from 0 comments)))
                 (request (batches_from 0 comments ! k)) = Inl e
            \<and> (\<forall>j<k. pulls_createReview ok
                       (map request (take j (batches_from 0 comments)))
                       (request (batches_from 0 comments ! j)) = Inr ())))"
proof -
  have rq: "request = review_request ow rp n"
    by (simp add: request_def posted_def review_request_def fun_eq_iff)
  have empty: "batches_from 0 ([]::Comment list) = []"
    by (subst batches_from.simps) simp
  have cr: "createReview client ow rp n comments
              = post_batches ok ow rp n (batches_from 0 comments) []"
    using assms(3) empty by (cases comments) (simp_all add: createReview_def io_return_def)
  have 1: "comments = [] \<longrightarrow> createReview client ow rp n comments = (Inr (), [])"
    using assms(3) by (simp add: createReview_def io_return_def)
  have 2: "int (length (batches_from 0 comments)) = \<lceil>real (length comments) / 100\<rceil>"
    by (simp add: length_batches_from ceiling_hundred)
  have 3: "concat (batches_from 0 comments) = comments"
    by (simp add: concat_batches_from)
  have 4: "\<forall>b \<in> set (batches_from 0 comments). 0 < length b \<and> length b \<le> 100"
    using batch_sizes by blast
  have "concat (map (\<lambda>b. rr_comments (request b)) (batches_from 0 comments))
          = concat (map posted (batches_from 0 comments))"
    by (simp add: request_def)
  also have "\<dots> = posted (concat (batches_from 0 comments))"
    unfolding posted_def by (simp add: map_concat)
  finally have 5: "concat (map (\<lambda>b. rr_comments (request b)) (batches_from 0 comments))
                     = posted comments"
    using 3 by simp
  have 6: "(fst (post_batches ok ow rp n (batches_from 0 comments) []) = Inr ()
        \<and> snd (post_batches ok ow rp n (batches_from 0 comments) [])
            = map (\<lambda>b. Call_createReview (request b)) (batches_from 0 comments)
        \<and> (\<forall>k<length (batches_from 0 comments).
              pulls_createReview ok (map request (take k (batches_from 0 comments)))
                 (request (batches_from 0 comments ! k)) = Inr ()))
      \<or> (\<exists>k<length (batches_from 0 comments). \<exists>e.
            fst (post_batches ok ow rp n (batches_from 0 comments) []) = Inl e
            \<and> snd (post_batches ok ow rp n (batches_from 0 comments) [])
                = map (\<lambda>b. Call_createReview (request b))
                      (take (Suc k) (batches_from 0 comments))
            \<and> pulls_createReview ok (map request (take k (batches_from 0 comments)))
                 (request (batches_from 0 comments ! k)) = Inl e
            \<and> (\<forall>j<k. pulls_createReview ok
                       (map request (take j (batches_from 0 comments)))
                       (request (batches_from 0 comments ! j)) = Inr ()))"
    using post_batches_outcome[of ok ow rp n "batches_from 0 comments" "[]"]
    unfolding append_Nil rq .
  show ?thesis
    unfolding cr by (intro conjI 1[unfolded cr] 2 3 4 5 6)
qed

text \<open>
  250 comments on a host that rejects the second submission it receives: three batches,
  two calls of 100 comments each, and the host's error.
\<close>

theorem createReview_batches_witness:
  "octokit authenticated_client = Some second_rejecting_octokit
   \<and> int (length (batches_from 0 (replicate 250 sample_comment))) = 3
   \<and> createReview authenticated_client (JStr ''octo'') (JStr ''repo'') (JNum 1)
         (replicate 250 sample_comment)
       = (Inl (HttpError 422 [Text ''Unprocessable'']),
          [Call_createReview
             \<lparr> rr_owner = JStr ''octo'', rr_repo = JStr ''repo'', rr_pull_number = JNum 1,
               rr_event = ''COMMENT'',
               rr_comments = replicate 100 \<lparr> rc_path = JStr ''file.js'', rc_line = JNum 1,
                                               rc_body = ''Comment'', rc_side = ''RIGHT'' \<rparr> \<rparr>,
           Call_createReview
             \<lparr> rr_owner = JStr ''octo'', rr_repo = JStr ''repo'', rr_pull_number = JNum 1,
               rr_event = ''COMMENT'',
               rr_comments = replicate 100 \<lparr> rc_path = JStr ''file.js'', rc_line = JNum 1,
                                               rc_body = ''Comment'', rc_side = ''RIGHT'' \<rparr> \<rparr>])"
proof -
  have a: "octokit authenticated_client = Some second_rejecting_octokit"
    by (simp add: authenticated_client_def)
  note t = createReview_batches
             [where client = authenticated_client and ok = second_rejecting_octokit
                and comments = "replicate 250 sample_comment"
                and ow = "JStr ''octo''" and rp = "JStr ''repo''" and n = "JNum 1", OF a]
  from t have len: "int (length (batches_from 0 (replicate 250 sample_comment))) = 3"
    by simp
  have run: "createReview authenticated_client (JStr ''octo'') (JStr ''repo'') (JNum 1)
         (replicate 250 sample_comment)
       = (Inl (HttpError 422 [Text ''Unprocessable'']),
          [Call_createReview
             \<lparr> rr_owner = JStr ''octo'', rr_repo = JStr ''repo'', rr_pull_number = JNum 1,
               rr_event = ''COMMENT'',
               rr_comments = replicate 100 \<lparr> rc_path = JStr ''file.js'', rc_line = JNum 1,
                                               rc_body = ''Comment'', rc_side = ''RIGHT'' \<rparr> \<rparr>,
           Call_createReview
             \<lparr> rr_owner = JStr ''octo'', rr_repo = JStr ''repo'', rr_pull_number = JNum 1,
               rr_event = ''COMMENT'',
               rr_comments = replicate 100 \<lparr> rc_path = JStr ''file.js'', rc_line = JNum 1,
                                               rc_body = ''Comment'', rc_side = ''RIGHT'' \<rparr> \<rparr>])"
    by (simp add: createReview_def authenticated_client_def batches_of_250 Let_def
          review_request_def second_rejecting_octokit_def sample_comment_def)
  from a len run show ?thesis by simp
qed

section \<open>The pull-request handler\<close>

lemma calls_Nil [simp]: "calls [] = []"
  by (simp add: calls_def List.map_filter_def)

lemma calls_Cons: "calls (ev # t) = (case call_name ev of None \<Rightarrow> calls t | Some c \<Rightarrow> c # calls t)"
  by (simp add: calls_def List.map_filter_def split: option.splits)

lemma calls_append: "calls (a @ b) = calls a @ calls b"
  by (simp add: calls_def List.map_filter_def)


lemma has_pull_request:
  "\<not> nullish (member (payload event) ''pull_request'') \<Longrightarrow> \<not> nullish (payload event)"
  by (cases "payload event") simp_all

lemma handlePullRequest_returns:
  assumes "\<not> nullish (member (payload event) ''pull_request'')"
      and "stringifiable (owner (repository event))"
      and "stringifiable (name (repository event))"
  shows "fst (handlePullRequest w event correlationId) = Inr ()"
  using assms has_pull_request[OF assms(1)]
  by (simp add: handlePullRequest_def Let_def io_simps fst_io_catch repository_template
        split: sum.splits)

lemma handlePullRequest_raises:
  assumes "\<not> nullish (payload event)"
      and "\<not> (stringifiable (owner (repository event))
               \<and> stringifiable (name (repository event)))"
  shows "handlePullRequest w event correlationId
           = (Inl (TypeError [Text ''Cannot convert object to primitive value'']), [])"
  using assms
  by (auto simp: handlePullRequest_def Let_def io_simps repository_template)



lemma handlePullRequest_trace:
  assumes "\<not> nullish (member (payload event) ''pull_request'')"
      and "stringifiable (owner (repository event))"
      and "stringifiable (name (repository event))"
  shows "snd (handlePullRequest w event correlationId)
          = Log ''info'' ''Processing pull request'' correlationId
            # (case processPullRequest w event correlationId
                      (member (payload event) ''pull_request'') of
                 (Inl e, t) \<Rightarrow> t @ [LogError ''Error processing pull request'' correlationId
                                      (error_message e)]
               | (Inr u, t) \<Rightarrow> t)"
  using assms has_pull_request[OF assms(1)]
  by (simp add: handlePullRequest_def Let_def io_simps repository_template
        split: sum.splits prod.splits)

lemma prefix_bind0:
  assumes "calls (snd m) = []"
      and "\<And>a. fst m = Inr a \<Longrightarrow> prefix (calls (snd (f a))) rest"
  shows "prefix (calls (snd (io_bind m f))) rest"
  using assms by (cases "fst m") (simp_all add: snd_io_bind calls_append)

lemma prefix_bind1:
  assumes "calls (snd m) = [c]"
      and "\<And>a. fst m = Inr a \<Longrightarrow> prefix (calls (snd (f a))) rest"
  shows "prefix (calls (snd (io_bind m f))) (c # rest)"
  using assms by (cases "fst m") (simp_all add: snd_io_bind calls_append)

lemma calls_emit_log [simp]:
  "calls (snd (io_emit (Log l t c))) = []"
  by (simp add: io_emit_def calls_Cons)

lemma calls_return [simp]: "calls (snd (io_return a)) = []"
  by (simp add: io_return_def)

lemma calls_lift [simp]: "calls (snd (io_lift r)) = []"
  by (simp add: io_lift_def)

lemma calls_throw [simp]: "calls (snd (io_throw e)) = []"
  by (simp add: io_throw_def)

lemma calls_getConfig [simp]: "calls (snd (io_emit Call_getConfig)) = [''getConfig'']"
  by (simp add: io_emit_def calls_Cons)

lemma calls_authenticate [simp]:
  "calls (snd (authenticate c i)) = [''getInstallationOctokit'']"
  by (simp add: authenticate_def io_simps calls_Cons split: sum.splits)

lemma authenticate_octokit:
  "fst (authenticate c i) = Inr c' \<Longrightarrow> \<exists>ok. octokit c' = Some ok"
  by (auto simp: authenticate_def io_simps split: sum.splits)

lemma calls_getFiles:
  "octokit c = Some ok \<Longrightarrow> calls (snd (getFiles c ow rp n)) = [''listFiles'']"
  by (cases "pulls_listFiles ok ow rp n") (simp_all add: getFiles_def io_simps calls_Cons)

lemma calls_keep_file [simp]: "calls (snd (keep_file w cid f)) = []"
  by (cases "some_pattern w (JStr (filename f)) ignoredPaths")
     (simp_all add: keep_file_def io_simps calls_Cons)

lemma calls_filter_files [simp]: "calls (snd (filter_files w cid fs)) = []"
proof (induction fs)
  case Nil
  show ?case by simp
next
  case (Cons f fs)
  obtain r t where k: "keep_file w cid f = (r, t)" by (cases "keep_file w cid f")
  obtain r' t' where ff: "filter_files w cid fs = (r', t')" by (cases "filter_files w cid fs")
  from k have "calls t = []" using calls_keep_file[of w cid f] by simp
  moreover from ff Cons.IH have "calls t' = []" by simp
  ultimately show ?case using k ff
    by (cases r; cases r') (simp_all add: calls_append)
qed

lemma calls_getFile:
  "octokit c = Some ok \<Longrightarrow> calls (snd (getFile c ow rp p ref)) = [''getContent'']"
  by (cases "repos_getContent ok ow rp p ref")
     (auto simp: getFile_def io_simps calls_Cons calls_append status_is_404_def
           split: ContentData.splits thrown.splits sum.splits)

lemma calls_fetchCustomInstructions:
  "octokit c = Some ok \<Longrightarrow> calls (snd (fetchCustomInstructions w c ow rp)) = [''getContent'']"
  using calls_getFile[of c ok ow rp "''.reviewthor.md''" "''HEAD''"]
  by (cases "fst (getFile c ow rp ''.reviewthor.md'' ''HEAD'')")
     (auto simp: fetchCustomInstructions_def snd_io_bind calls_append split: option.splits)

lemma calls_createMessage [simp]:
  "calls (snd (createMessage w cfg p)) = [''createMessage'']"
  by (cases "messages_create w cfg p")
     (simp_all add: createMessage_def io_simps calls_Cons split: thrown.splits)

lemma calls_analyzeCode:
  "calls (snd (analyzeCode (new_AIReviewEngine (createMessage w cfg) fc jp) ctx))
     = [''createMessage'']"
proof -
  have "calls (snd (io_catch m h)) = []" if "snd m = []" "\<And>e. snd (h e) = []"
    for m :: "ReviewAnalysis io" and h
    using that by (cases "fst m") (simp_all add: snd_io_catch)
  then show ?thesis
    by (cases "fst (createMessage w cfg (ReviewPrompt ctx))")
       (auto simp: analyzeCode_def new_AIReviewEngine_def snd_io_bind calls_append io_simps
             snd_io_catch split: sum.splits)
qed

lemma batches_from_single:
  assumes "0 < length cs" and "length cs \<le> 100"
  shows "batches_from 0 cs = [cs]"
proof -
  have "batches_from (0 + BATCH_SIZE) cs = []"
    using assms by (subst batches_from.simps) (simp add: BATCH_SIZE_def)
  moreover have "slice 0 (0 + BATCH_SIZE) cs = cs"
    using assms by (simp add: slice_def BATCH_SIZE_def)
  ultimately show ?thesis
    using assms by (subst batches_from.simps) simp
qed

lemma calls_createReview_single:
  assumes "octokit c = Some ok" and "0 < length cs" and "length cs \<le> 100"
  shows "calls (snd (createReview c ow rp n cs)) = [''createReview'']"
  using assms batches_from_single[OF assms(2,3)]
  by (cases "pulls_createReview ok [] (review_request ow rp n cs)")
     (simp_all add: createReview_def Let_def calls_Cons)

lemma calls_review_step:
  assumes "fst (authenticate c0 i) = Inr c"
  shows "prefix (calls (snd (io_bind
           (if 0 < length (take maxCommentsPerPR cs)
            then io_bind (io_emit (Log l1 t1 cid)) (\<lambda>u. createReview c ow rp n (take maxCommentsPerPR cs))
            else io_emit (Log l2 t2 cid))
           (\<lambda>u. io_emit (Log l3 t3 cid))))) [''createReview'']"
proof (cases "0 < length (take maxCommentsPerPR cs)")
  case True
  from authenticate_octokit[OF assms] obtain ok where ok: "octokit c = Some ok" ..
  have "length (take maxCommentsPerPR cs) \<le> 100"
    by (simp add: maxCommentsPerPR_def)
  from calls_createReview_single[OF ok True this]
  have "calls (snd (io_bind (io_emit (Log l1 t1 cid))
                     (\<lambda>u. createReview c ow rp n (take maxCommentsPerPR cs)))) = [''createReview'']"
    by (simp add: snd_io_bind calls_append io_emit_def calls_Cons)
  then show ?thesis
    using True by (cases "fst (io_bind (io_emit (Log l1 t1 cid))
                     (\<lambda>u. createReview c ow rp n (take maxCommentsPerPR cs)))")
                  (simp_all add: snd_io_bind calls_append)
next
  case False
  then show ?thesis
    by (auto simp: snd_io_bind calls_append io_emit_def calls_Cons)
qed

lemma calls_processPullRequest:
  "prefix (calls (snd (processPullRequest w event cid pr_v)))
     [''getConfig'', ''getInstallationOctokit'', ''listFiles'', ''getContent'',
      ''createMessage'', ''createReview'']"
proof (cases "truthy (member pr_v ''draft'')")
  case True
  then show ?thesis by (simp add: processPullRequest_def)
next
  case False
  show ?thesis
    unfolding processPullRequest_def
    apply (simp only: False if_False Let_def)
    apply (rule prefix_bind1, simp)
    apply (rule prefix_bind0, simp)
    apply (rule prefix_bind1, simp)
    apply (rule prefix_bind1)
     apply (drule authenticate_octokit, clarify, simp add: calls_getFiles)
    apply (rule prefix_bind0, simp)
    apply (split if_split, intro conjI impI)
     apply simp
    apply (rule prefix_bind0, simp)
    apply (rule prefix_bind1)
     apply (drule authenticate_octokit, clarify, simp add: calls_fetchCustomInstructions)
    apply (rule prefix_bind0, simp split: option.splits)
    apply (rule prefix_bind0, simp)
    apply (rule prefix_bind0, simp)
    apply (rule prefix_bind1, simp add: calls_analyzeCode)
    apply (rule prefix_bind0, simp)
    apply (rule prefix_bind0, simp split: option.splits)
    apply (rule calls_review_step, assumption)
    done
qed

lemma calls_handlePullRequest:
  "prefix (calls (snd (handlePullRequest w event cid)))
     [''getConfig'', ''getInstallationOctokit'', ''listFiles'', ''getContent'',
      ''createMessage'', ''createReview'']"
proof (cases "\<not> nullish (member (payload event) ''pull_request'')
              \<and> stringifiable (owner (repository event))
              \<and> stringifiable (name (repository event))")
  case True
  then have "calls (snd (handlePullRequest w event cid))
          = calls (snd (processPullRequest w event cid (member (payload event) ''pull_request'')))"
    by (cases "processPullRequest w event cid (member (payload event) ''pull_request'')")
       (auto simp: handlePullRequest_trace calls_Cons calls_append split: sum.splits)
  then show ?thesis using calls_processPullRequest by simp
next
  case False
  then have "snd (handlePullRequest w event cid) = []"
    by (auto simp: handlePullRequest_def Let_def io_simps repository_template)
  then show ?thesis by simp
qed

lemma parsed_payload:
  "parseEvent p = Inr ev \<Longrightarrow> payload ev = p"
  by (auto simp: parseEvent_def split: if_splits sum.splits)

lemma parsed_pull_request_event:
  assumes "parseEvent p = Inr ev"
      and "event_type ev \<in> set [''pull_request.opened'', ''pull_request.synchronize'',
                                   ''pull_request.reopened'']"
  shows "\<not> nullish (member (payload ev) ''pull_request'')"
proof -
  from assms(1) have t: "determineEventType p = Inr (event_type ev)" and p: "payload ev = p"
    by (auto simp: parseEvent_def split: if_splits sum.splits)
  from t assms(2) have "truthy (member p ''pull_request'')"
    by (auto simp: determineEventType_def Let_def split: if_splits sum.splits)
  then show ?thesis unfolding p by (cases "member p ''pull_request''") simp_all
qed

lemma routeEvent_returns:
  assumes "parseEvent p = Inr ev"
      and "stringifiable (owner (repository ev))"
      and "stringifiable (name (repository ev))"
  shows "fst (routeEvent (setPullRequestHandler h (\<lambda>evt. handlePullRequest w evt cid)) ev) = Inr ()"
proof (cases "event_type ev \<in> set [''pull_request.opened'', ''pull_request.synchronize'',
                                   ''pull_request.reopened'']")
  case True
  from handlePullRequest_returns[OF parsed_pull_request_event[OF assms(1) True] assms(2,3)] True
  show ?thesis
    by (simp add: routeEvent_def setPullRequestHandler_def)
next
  case False
  then show ?thesis
    by (simp add: routeEvent_def io_return_def)
qed

lemma reviewthor_accepted:
  assumes "truthy (body req)" and "rawBody req = Some raw"
      and "\<not> header_missing (x_hub_signature_256 req)"
      and "x_github_event req = Some ''pull_request''
           \<or> x_github_event req = Some ''pull_request_review''"
      and "getConfig w = Inr config"
      and "validateSignature (crypto w) (githubWebhookSecret config) raw
             (x_hub_signature_256 req) = Inr True"
      and "parseEvent (body req) = Inr ev"
      and "stringifiable (owner (repository ev))"
      and "stringifiable (name (repository ev))"
  shows "fst (reviewthor w req) = Inr \<lparr> response_status = 200, response_sent = ''OK'' \<rparr>"
proof -
  have hm: "\<not> header_missing (x_github_event req)"
    using assms(4) by (auto simp: header_missing_def)
  have r: "fst (routeEvent (setPullRequestHandler (new_WebhookHandler (githubWebhookSecret config))
              (\<lambda>evt. handlePullRequest w evt cid)) ev) = Inr ()" for cid
    by (rule routeEvent_returns[OF assms(7,8,9)])
  show ?thesis
    using assms hm r
    by (auto simp: reviewthor_def Let_def io_simps fst_io_bind fst_io_catch respond_def
          toString_utf8_def new_WebhookHandler_def repository_template split: option.splits)
qed

lemma reviewthor_unprintable:
  assumes "truthy (body req)" and "rawBody req = Some raw"
      and "\<not> header_missing (x_hub_signature_256 req)"
      and "x_github_event req = Some ''pull_request''
           \<or> x_github_event req = Some ''pull_request_review''"
      and "getConfig w = Inr config"
      and "validateSignature (crypto w) (githubWebhookSecret config) raw
             (x_hub_signature_256 req) = Inr True"
      and "parseEvent (body req) = Inr ev"
      and "\<not> (stringifiable (owner (repository ev)) \<and> stringifiable (name (repository ev)))"
  shows "fst (reviewthor w req)
           = Inr \<lparr> response_status = 500, response_sent = ''Internal server error'' \<rparr>"
proof -
  have hm: "\<not> header_missing (x_github_event req)"
    using assms(4) by (auto simp: header_missing_def)
  show ?thesis
    using assms hm
    by (auto simp: reviewthor_def Let_def io_simps fst_io_bind fst_io_catch respond_def
          toString_utf8_def new_WebhookHandler_def repository_template
          split: option.splits sum.splits)
qed

text \<open>
  The template literal of the first log entry of \<open>handlePullRequest\<close> stands before
  its \<open>try\<close> block, and the responder builds the same text for its last log entry.
  An event whose repository name is an object with a property \<open>toString\<close> makes the
  handler raise, and the responder answers 500 to a request with a verified signature
  that carries it.
\<close>

theorem pull_request_unprintable_name_counterexample:
  "\<not> nullish (member (payload unprintable_name_event) ''pull_request'')
   \<and> handlePullRequest offline_world unprintable_name_event ''d-5''
       = (Inl (TypeError [Text ''Cannot convert object to primitive value'']), [])
   \<and> truthy (body verified_unprintable_name_request)
   \<and> getConfig offline_world = Inr sample_config
   \<and> validateSignature (crypto offline_world) (githubWebhookSecret sample_config) ''{}''
        (x_hub_signature_256 verified_unprintable_name_request) = Inr True
   \<and> parseEvent (body verified_unprintable_name_request) = Inr unprintable_name_event
   \<and> fst (reviewthor offline_world verified_unprintable_name_request)
       = Inr \<lparr> response_status = 500, response_sent = ''Internal server error'' \<rparr>"
  by (simp add: unprintable_name_event_def unprintable_name_payload_def unprintable_def
        verified_unprintable_name_request_def offline_world_def sample_config_def
        sample_crypto_def validateSignature_def timingSafeEqual_def
        handlePullRequest_def reviewthor_def routeEvent_def setPullRequestHandler_def
        new_WebhookHandler_def parseEvent_def determineEventType_def template_def
        toString_utf8_def respond_def header_missing_def Let_def io_simps)

text \<open>
  C5. For a pull-request event (its payload carries the \<open>pull_request\<close> object, as
  every event routed to the handler does), whatever the configuration loader, the
  host and the review service answer. Where the repository owner and name convert to a
  string: \<open>handlePullRequest\<close> returns normally, and when its processing raises, the
  trace is the calls made up to the failure followed by one error entry carrying the
  correlation identifier and the error's message. Where one of them does not convert,
  the handler raises a TypeError and logs nothing. In both cases the outside operations
  called are an initial segment of the fixed sequence configuration, authentication,
  file list, instructions, review service, review submission, so none is called twice.
  To a request whose signature verified and whose payload was classified the responder
  answers 200 \<open>OK\<close> where the owner and name of the event convert to a string, and
  500 where one of them does not.
\<close>

theorem pull_request_failures_swallowed:
  assumes "\<not> nullish (member (payload event) ''pull_request'')"
  shows "(stringifiable (owner (repository event)) \<and> stringifiable (name (repository event))
       \<longrightarrow> fst (handlePullRequest w event correlationId) = Inr ()
           \<and> (\<forall>e t. processPullRequest w event correlationId
                       (member (payload event) ''pull_request'') = (Inl e, t)
                \<longrightarrow> snd (handlePullRequest w event correlationId)
                      = Log ''info'' ''Processing pull request'' correlationId
                        # t @ [LogError ''Error processing pull request'' correlationId
                                 (error_message e)]))
   \<and> (\<not> (stringifiable (owner (repository event)) \<and> stringifiable (name (repository event)))
       \<longrightarrow> handlePullRequest w event correlationId
             = (Inl (TypeError [Text ''Cannot convert object to primitive value'']), []))
   \<and> prefix (calls (snd (handlePullRequest w event correlationId)))
        [''getConfig'', ''getInstallationOctokit'', ''listFiles'', ''getContent'',
         ''createMessage'', ''createReview'']
   \<and> (\<forall>req raw config ev.
         truthy (body req) \<and> rawBody req = Some raw
         \<and> \<not> header_missing (x_hub_signature_256 req)
         \<and> (x_github_event req = Some ''pull_request''
              \<or> x_github_event req = Some ''pull_request_review'')
         \<and> getConfig w = Inr config
         \<and> validateSignature (crypto w) (githubWebhookSecret config) raw
              (x_hub_signature_256 req) = Inr True
         \<and> parseEvent (body req) = Inr ev
        \<longrightarrow> fst (reviewthor w req)
              = Inr (if stringifiable (owner (repository ev))
                        \<and> stringifiable (name (repository ev))
                     then \<lparr> response_status = 200, response_sent = ''OK'' \<rparr>
                     else \<lparr> response_status = 500,
                            response_sent = ''Internal server error'' \<rparr>))"
proof (intro conjI allI impI)
  assume s: "stringifiable (owner (repository event)) \<and> stringifiable (name (repository event))"
  then show "fst (handlePullRequest w event correlationId) = Inr ()"
    using handlePullRequest_returns[OF assms] by blast
  fix e t
  assume "processPullRequest w event correlationId (member (payload event) ''pull_request'')
            = (Inl e, t)"
  then show "snd (handlePullRequest w event correlationId)
              = Log ''info'' ''Processing pull request'' correlationId
                # t @ [LogError ''Error processing pull request'' correlationId
                         (error_message e)]"
    using s by (simp add: handlePullRequest_trace[OF assms])
next
  assume "\<not> (stringifiable (owner (repository event))
             \<and> stringifiable (name (repository event)))"
  then show "handlePullRequest w event correlationId
             = (Inl (TypeError [Text ''Cannot convert object to primitive value'']), [])"
    using handlePullRequest_raises[OF has_pull_request[OF assms]] by blast
next
  show "prefix (calls (snd (handlePullRequest w event correlationId)))
        [''getConfig'', ''getInstallationOctokit'', ''listFiles'', ''getContent'',
         ''createMessage'', ''createReview'']"
    by (rule calls_handlePullRequest)
next
  fix req :: Request and raw config ev
  assume a: "truthy (body req) \<and> rawBody req = Some raw
         \<and> \<not> header_missing (x_hub_signature_256 req)
         \<and> (x_github_event req = Some ''pull_request''
              \<or> x_github_event req = Some ''pull_request_review'')
         \<and> getConfig w = Inr config
         \<and> validateSignature (crypto w) (githubWebhookSecret config) raw
              (x_hub_signature_256 req) = Inr True
         \<and> parseEvent (body req) = Inr ev"
  show "fst (reviewthor w req)
              = Inr (if stringifiable (owner (repository ev))
                        \<and> stringifiable (name (repository ev))
                     then \<lparr> response_status = 200, response_sent = ''OK'' \<rparr>
                     else \<lparr> response_status = 500,
                            response_sent = ''Internal server error'' \<rparr>)"
  proof (cases "stringifiable (owner (repository ev)) \<and> stringifiable (name (repository ev))")
    case True
    then show ?thesis using a reviewthor_accepted by auto
  next
    case False
    then show ?thesis using a reviewthor_unprintable by auto
  qed
qed

theorem pull_request_failures_swallowed_witness:
  "\<not> nullish (member (payload opened_event) ''pull_request'')
   \<and> stringifiable (owner (repository opened_event))
   \<and> stringifiable (name (repository opened_event))
   \<and> handlePullRequest offline_world opened_event ''d-4''
       = (Inr (), [Log ''info'' ''Processing pull request'' ''d-4'',
                   Call_getConfig,
                   Call_getInstallationOctokit (JNum 456),
                   LogError ''Error processing pull request'' ''d-4''
                     [Text ''Authentication failed: '', Text ''Auth failed'']])"
proof -
  have p: "processPullRequest offline_world opened_event ''d-4''
             (member (payload opened_event) ''pull_request'')
           = (Inl (Error [Text ''Authentication failed: '', Text ''Auth failed'']),
              [Call_getConfig, Call_getInstallationOctokit (JNum 456)])"
    by (simp add: processPullRequest_def opened_event_def opened_payload_def offline_world_def
          authenticate_def new_GitHubClient_def io_simps)
  have n: "\<not> nullish (member (payload opened_event) ''pull_request'')"
    by (simp add: opened_event_def opened_payload_def)
  have s: "stringifiable (owner (repository opened_event))
           \<and> stringifiable (name (repository opened_event))"
    by (simp add: opened_event_def)
  from pull_request_failures_swallowed [OF n, of offline_world "''d-4''"] p s
  have "fst (handlePullRequest offline_world opened_event ''d-4'') = Inr ()"
    and "snd (handlePullRequest offline_world opened_event ''d-4'')
          = [Log ''info'' ''Processing pull request'' ''d-4'',
                   Call_getConfig,
                   Call_getInstallationOctokit (JNum 456),
                   LogError ''Error processing pull request'' ''d-4''
                     [Text ''Authentication failed: '', Text ''Auth failed'']]"
    by simp_all
  with n s show ?thesis by (simp add: prod_eq_iff)
qed

section \<open>The webhook responder\<close>

lemma reviewthor_missing_signature:
  assumes "truthy (body req)" and "rawBody req = Some raw"
      and "header_missing (x_hub_signature_256 req)"
  shows "fst (reviewthor w req)
           = Inr \<lparr> response_status = 401, response_sent = ''Invalid signature'' \<rparr>"
    and "calls (snd (reviewthor w req)) = []"
  using assms
  by (simp_all add: reviewthor_def Let_def io_simps respond_def calls_Cons)

lemma reviewthor_event_ignored:
  assumes "truthy (body req)" and "rawBody req = Some raw"
      and "\<not> header_missing (x_hub_signature_256 req)"
      and "\<not> header_missing (x_github_event req)"
      and "x_github_event req \<noteq> Some ''pull_request''"
      and "x_github_event req \<noteq> Some ''pull_request_review''"
  shows "fst (reviewthor w req)
           = Inr \<lparr> response_status = 200, response_sent = ''Event ignored'' \<rparr>"
    and "calls (snd (reviewthor w req)) = []"
  using assms
  by (simp_all add: reviewthor_def Let_def io_simps respond_def calls_Cons)

lemma reviewthor_invalid_signature:
  assumes "truthy (body req)" and "rawBody req = Some raw"
      and "\<not> header_missing (x_hub_signature_256 req)"
      and "x_github_event req = Some ''pull_request''
           \<or> x_github_event req = Some ''pull_request_review''"
      and "getConfig w = Inr config"
      and "validateSignature (crypto w) (githubWebhookSecret config) raw
             (x_hub_signature_256 req) = Inr False"
  shows "fst (reviewthor w req)
           = Inr \<lparr> response_status = 401, response_sent = ''Invalid signature'' \<rparr>"
    and "calls (snd (reviewthor w req)) = [''getConfig'']"
proof -
  have hm: "\<not> header_missing (x_github_event req)"
    using assms(4) by (auto simp: header_missing_def)
  show "fst (reviewthor w req)
           = Inr \<lparr> response_status = 401, response_sent = ''Invalid signature'' \<rparr>"
    using assms hm
    by (auto simp: reviewthor_def Let_def io_simps respond_def toString_utf8_def
          new_WebhookHandler_def)
  show "calls (snd (reviewthor w req)) = [''getConfig'']"
    using assms hm
    by (auto simp: reviewthor_def Let_def io_simps respond_def toString_utf8_def
          new_WebhookHandler_def calls_Cons)
qed

lemma reviewthor_config_failure:
  assumes "truthy (body req)" and "rawBody req = Some raw"
      and "\<not> header_missing (x_hub_signature_256 req)"
      and "x_github_event req = Some ''pull_request''
           \<or> x_github_event req = Some ''pull_request_review''"
      and "getConfig w = Inl e"
  shows "fst (reviewthor w req)
           = Inr \<lparr> response_status = 500, response_sent = ''Internal server error'' \<rparr>"
proof -
  have hm: "\<not> header_missing (x_github_event req)"
    using assms(4) by (auto simp: header_missing_def)
  show ?thesis
    using assms hm
    by (auto simp: reviewthor_def Let_def io_simps respond_def)
qed

lemma reviewthor_signature_failure:
  assumes "truthy (body req)" and "rawBody req = Some raw"
      and "\<not> header_missing (x_hub_signature_256 req)"
      and "x_github_event req = Some ''pull_request''
           \<or> x_github_event req = Some ''pull_request_review''"
      and "getConfig w = Inr config"
      and "validateSignature (crypto w) (githubWebhookSecret config) raw
             (x_hub_signature_256 req) = Inl e"
  shows "fst (reviewthor w req)
           = Inr \<lparr> response_status = 500, response_sent = ''Internal server error'' \<rparr>"
proof -
  have hm: "\<not> header_missing (x_github_event req)"
    using assms(4) by (auto simp: header_missing_def)
  show ?thesis
    using assms hm
    by (auto simp: reviewthor_def Let_def io_simps respond_def toString_utf8_def
          new_WebhookHandler_def)
qed

lemma reviewthor_ok_verified:
  assumes "rawBody req = Some raw"
      and "fst (reviewthor w req) = Inr \<lparr> response_status = 200, response_sent = ''OK'' \<rparr>"
  shows "\<not> header_missing (x_hub_signature_256 req)
         \<and> (\<exists>config. getConfig w = Inr config
               \<and> validateSignature (crypto w) (githubWebhookSecret config) raw
                    (x_hub_signature_256 req) = Inr True)"
proof (rule ccontr)
  assume neg: "\<not> ?thesis"
  consider (nobody) "\<not> truthy (body req)"
    | (nosig) "truthy (body req)" "header_missing (x_hub_signature_256 req)"
    | (noevent) "truthy (body req)" "\<not> header_missing (x_hub_signature_256 req)"
                "header_missing (x_github_event req)"
    | (other) "truthy (body req)" "\<not> header_missing (x_hub_signature_256 req)"
                "\<not> header_missing (x_github_event req)"
                "x_github_event req \<noteq> Some ''pull_request''"
                "x_github_event req \<noteq> Some ''pull_request_review''"
    | (noconfig) e where "truthy (body req)" "\<not> header_missing (x_hub_signature_256 req)"
                "x_github_event req = Some ''pull_request''
                 \<or> x_github_event req = Some ''pull_request_review''"
                "getConfig w = Inl e"
    | (config) config where "truthy (body req)" "\<not> header_missing (x_hub_signature_256 req)"
                "x_github_event req = Some ''pull_request''
                 \<or> x_github_event req = Some ''pull_request_review''"
                "getConfig w = Inr config"
    by (cases "getConfig w") blast+
  then show False
  proof cases
    case nobody
    then have "fst (reviewthor w req)
           = Inr \<lparr> response_status = 400, response_sent = ''Missing request body'' \<rparr>"
      by (simp add: reviewthor_def Let_def io_simps respond_def)
    with assms(2) show False by simp
  next
    case nosig
    from reviewthor_missing_signature(1)[OF nosig(1) assms(1) nosig(2), of w] assms(2)
    show False by simp
  next
    case noevent
    then have "fst (reviewthor w req)
           = Inr \<lparr> response_status = 400, response_sent = ''Missing event type'' \<rparr>"
      using assms(1) by (simp add: reviewthor_def Let_def io_simps respond_def)
    with assms(2) show False by simp
  next
    case other
    from reviewthor_event_ignored(1)[OF other(1) assms(1) other(2-5), of w] assms(2)
    show False by simp
  next
    case noconfig
    from reviewthor_config_failure[OF noconfig(1) assms(1) noconfig(2-4)] assms(2)
    show False by simp
  next
    case config
    show False
    proof (cases "validateSignature (crypto w) (githubWebhookSecret config) raw
             (x_hub_signature_256 req)")
      case (Inl e)
      from reviewthor_signature_failure[OF config(1) assms(1) config(2-4) Inl] assms(2)
      show False by simp
    next
      case (Inr b)
      show False
      proof (cases b)
        case True
        with Inr config neg show False by auto
      next
        case False
        with Inr have b': "validateSignature (crypto w) (githubWebhookSecret config) raw
               (x_hub_signature_256 req) = Inr False" by simp
        from reviewthor_invalid_signature(1)[OF config(1) assms(1) config(2-4) b'] assms(2)
        show False by simp
      qed
    qed
  qed
qed

lemma reviewthor_missing_event_type:
  assumes "truthy (body req)" and "rawBody req = Some raw"
      and "\<not> header_missing (x_hub_signature_256 req)"
      and "header_missing (x_github_event req)"
  shows "fst (reviewthor w req)
           = Inr \<lparr> response_status = 400, response_sent = ''Missing event type'' \<rparr>"
    and "calls (snd (reviewthor w req)) = []"
  using assms
  by (simp_all add: reviewthor_def Let_def io_simps respond_def calls_Cons)

text \<open>
  C1. For a request with a body: a missing or empty signature header is answered 401
  with no call outside; a \<open>pull_request\<close> or \<open>pull_request_review\<close> request whose
  signature does not verify is answered 401 once the configuration has loaded, the
  configuration load being the only call made, so that its payload is neither classified
  nor handled; the answer 200 \<open>OK\<close> is given only to requests whose signature verified.
  The event-type header is read before the signature is verified: a request of any other
  event type that carries a signature header is answered 200 \<open>Event ignored\<close>, and a
  request that carries a signature header and no event-type header is answered 400, both
  with no call outside and without verification.
\<close>

theorem reviewthor_signature_gate:
  assumes "truthy (body req)" and "rawBody req = Some raw"
  shows "(header_missing (x_hub_signature_256 req) \<longrightarrow>
            fst (reviewthor w req)
              = Inr \<lparr> response_status = 401, response_sent = ''Invalid signature'' \<rparr>
            \<and> calls (snd (reviewthor w req)) = [])
   \<and> (\<not> header_missing (x_hub_signature_256 req)
       \<and> (x_github_event req = Some ''pull_request''
            \<or> x_github_event req = Some ''pull_request_review'')
       \<and> getConfig w = Inr config
       \<and> validateSignature (crypto w) (githubWebhookSecret config) raw
            (x_hub_signature_256 req) = Inr False
       \<longrightarrow> fst (reviewthor w req)
              = Inr \<lparr> response_status = 401, response_sent = ''Invalid signature'' \<rparr>
           \<and> calls (snd (reviewthor w req)) = [''getConfig''])
   \<and> (fst (reviewthor w req) = Inr \<lparr> response_status = 200, response_sent = ''OK'' \<rparr>
       \<longrightarrow> \<not> header_missing (x_hub_signature_256 req)
           \<and> (\<exists>c. getConfig w = Inr c
                 \<and> validateSignature (crypto w) (githubWebhookSecret c) raw
                      (x_hub_signature_256 req) = Inr True))
   \<and> (\<not> header_missing (x_hub_signature_256 req)
       \<and> \<not> header_missing (x_github_event req)
       \<and> x_github_event req \<noteq> Some ''pull_request''
       \<and> x_github_event req \<noteq> Some ''pull_request_review''
       \<longrightarrow> fst (reviewthor w req)
              = Inr \<lparr> response_status = 200, response_sent = ''Event ignored'' \<rparr>
           \<and> calls (snd (reviewthor w req)) = [])
   \<and> (\<not> header_missing (x_hub_signature_256 req) \<and> header_missing (x_github_event req)
       \<longrightarrow> fst (reviewthor w req)
              = Inr \<lparr> response_status = 400, response_sent = ''Missing event type'' \<rparr>
           \<and> calls (snd (reviewthor w req)) = [])"
proof (intro conjI impI)
  assume "header_missing (x_hub_signature_256 req)"
  then show "fst (reviewthor w req)
              = Inr \<lparr> response_status = 401, response_sent = ''Invalid signature'' \<rparr>"
    and "calls (snd (reviewthor w req)) = []"
    using reviewthor_missing_signature[OF assms] by simp_all
next
  assume a: "\<not> header_missing (x_hub_signature_256 req)
       \<and> (x_github_event req = Some ''pull_request''
            \<or> x_github_event req = Some ''pull_request_review'')
       \<and> getConfig w = Inr config
       \<and> validateSignature (crypto w) (githubWebhookSecret config) raw
            (x_hub_signature_256 req) = Inr False"
  then show "fst (reviewthor w req)
              = Inr \<lparr> response_status = 401, response_sent = ''Invalid signature'' \<rparr>"
    using reviewthor_invalid_signature(1)[OF assms] by blast
  from a show "calls (snd (reviewthor w req)) = [''getConfig'']"
    using reviewthor_invalid_signature(2)[OF assms] by blast
next
  assume ok: "fst (reviewthor w req) = Inr \<lparr> response_status = 200, response_sent = ''OK'' \<rparr>"
  from reviewthor_ok_verified[OF assms(2) ok]
  show "\<not> header_missing (x_hub_signature_256 req)"
    and "\<exists>c. getConfig w = Inr c
                 \<and> validateSignature (crypto w) (githubWebhookSecret c) raw
                      (x_hub_signature_256 req) = Inr True"
    by simp_all
next
  assume a: "\<not> header_missing (x_hub_signature_256 req)
       \<and> \<not> header_missing (x_github_event req)
       \<and> x_github_event req \<noteq> Some ''pull_request''
       \<and> x_github_event req \<noteq> Some ''pull_request_review''"
  then show "fst (reviewthor w req)
              = Inr \<lparr> response_status = 200, response_sent = ''Event ignored'' \<rparr>"
    using reviewthor_event_ignored(1)[OF assms] by blast
  from a show "calls (snd (reviewthor w req)) = []"
    using reviewthor_event_ignored(2)[OF assms] by blast
next
  assume a: "\<not> header_missing (x_hub_signature_256 req) \<and> header_missing (x_github_event req)"
  then show "fst (reviewthor w req)
              = Inr \<lparr> response_status = 400, response_sent = ''Missing event type'' \<rparr>"
    using reviewthor_missing_event_type(1)[OF assms] by blast
  from a show "calls (snd (reviewthor w req)) = []"
    using reviewthor_missing_event_type(2)[OF assms] by blast
qed

theorem reviewthor_signature_gate_witness:
  "truthy (body pull_request_bad_signature)
   \<and> rawBody pull_request_bad_signature = Some ''{}''
   \<and> validateSignature (crypto offline_world) (githubWebhookSecret sample_config) ''{}''
        (x_hub_signature_256 pull_request_bad_signature) = Inr False
   \<and> fst (reviewthor offline_world pull_request_bad_signature)
       = Inr \<lparr> response_status = 401, response_sent = ''Invalid signature'' \<rparr>
   \<and> calls (snd (reviewthor offline_world pull_request_bad_signature)) = [''getConfig'']"
proof -
  have b: "truthy (body pull_request_bad_signature)"
    and r: "rawBody pull_request_bad_signature = Some ''{}''"
    by (simp_all add: pull_request_bad_signature_def opened_payload_def)
  have v: "validateSignature (crypto offline_world) (githubWebhookSecret sample_config) ''{}''
        (x_hub_signature_256 pull_request_bad_signature) = Inr False"
    by (simp add: pull_request_bad_signature_def offline_world_def sample_crypto_def
          validateSignature_def Let_def)
  have h: "\<not> header_missing (x_hub_signature_256 pull_request_bad_signature)"
    and e: "x_github_event pull_request_bad_signature = Some ''pull_request''"
    and c: "getConfig offline_world = Inr sample_config"
    by (simp_all add: pull_request_bad_signature_def header_missing_def offline_world_def)
  from reviewthor_signature_gate [OF b r, of offline_world sample_config] h e c v
  show ?thesis using b r by simp
qed

text \<open>
  A \<open>push\<close> request whose signature header is present and does not verify is answered
  200.
\<close>

theorem reviewthor_unverified_event_ignored_counterexample:
  "validateSignature (crypto offline_world) (githubWebhookSecret sample_config) ''{}''
     (x_hub_signature_256 push_request_bad_signature) = Inr False
   \<and> reviewthor offline_world push_request_bad_signature
       = (Inr \<lparr> response_status = 200, response_sent = ''Event ignored'' \<rparr>,
          [Log ''info'' ''Webhook received'' ''d-1'',
           Log ''info'' ''Ignoring non-pull request event'' ''d-1''])"
  by (simp add: push_request_bad_signature_def offline_world_def sample_crypto_def
        validateSignature_def Let_def reviewthor_def header_missing_def respond_def io_simps)

end
